theory Spec2Isabelle
  imports Main "HOL-Library.Word"
begin

unbundle bit_operations_syntax

section \<open>Data model of \<^verbatim>\<open>_worker.js\<close>\<close>

text \<open>
  A \<^verbatim>\<open>Uint8Array\<close> is a list of 8-bit words. A JavaScript string is the list of its
  Unicode code points: every string the worker builds is either an ASCII literal, the
  output of \<^verbatim>\<open>toString\<close> on a number, or the output of \<^verbatim>\<open>TextDecoder.decode\<close>, so
  it never holds a lone surrogate, and all separators it searches for are ASCII.
\<close>

type_synonym byte = "8 word"
type_synonym jsstring = "nat list"

definition js :: "string \<Rightarrow> jsstring" where
  "js s = map of_char s"

record user =
  uuid :: jsstring
  email :: jsstring
  level :: nat
  alterId :: nat

definition VLESS_USERS :: "user list" where
  "VLESS_USERS =
     [\<lparr>uuid = js ''62a9adef-40b2-477a-861f-ce1e8604bc34'',
       email = js ''user@example.com'', level = 0, alterId = 0\<rparr>]"

subsection \<open>String primitives of the platform\<close>

text \<open>\<^verbatim>\<open>s.substr(start, len)\<close> for non-negative arguments.\<close>

definition substr :: "jsstring \<Rightarrow> nat \<Rightarrow> nat \<Rightarrow> jsstring" where
  "substr s start len = take len (drop start s)"

definition startsWith :: "jsstring \<Rightarrow> jsstring \<Rightarrow> bool" where
  "startsWith s p = (take (length p) s = p)"

fun includes_str :: "jsstring \<Rightarrow> jsstring \<Rightarrow> bool" where
  "includes_str [] p = (p = [])"
| "includes_str (c # cs) p = (startsWith (c # cs) p \<or> includes_str cs p)"

text \<open>
  \<^verbatim>\<open>toLowerCase\<close> on the ASCII letters. The strings it is applied to that decide a
  property below are UUID strings (hexadecimal digits and dashes), where this is exact.
\<close>

definition toLowerCase :: "jsstring \<Rightarrow> jsstring" where
  "toLowerCase s = map (\<lambda>c. if 65 \<le> c \<and> c \<le> 90 then c + 32 else c) s"

text \<open>\<^verbatim>\<open>String(n)\<close> for a non-negative integer: its decimal digits.\<close>

fun decimal :: "nat \<Rightarrow> jsstring" where
  "decimal n = (if n < 10 then [48 + n] else decimal (n div 10) @ [48 + n mod 10])"

declare decimal.simps [simp del]

text \<open>
  \<^verbatim>\<open>s.split(sep)\<close> for a non-empty separator: the pieces between the successive
  non-overlapping occurrences of \<open>sep\<close>, found from the left. \<open>skip\<close> counts the
  characters of a separator still to be passed over.
\<close>

fun split_from :: "jsstring \<Rightarrow> nat \<Rightarrow> jsstring \<Rightarrow> jsstring \<Rightarrow> jsstring list" where
  "split_from sep skip acc [] = [rev acc]"
| "split_from sep skip acc (c # cs) =
     (if 0 < skip then split_from sep (skip - 1) acc cs
      else if startsWith (c # cs) sep then rev acc # split_from sep (length sep - 1) [] cs
      else split_from sep 0 (c # acc) cs)"

definition split :: "jsstring \<Rightarrow> jsstring \<Rightarrow> jsstring list" where
  "split s sep = split_from sep 0 [] s"

text \<open>Reading an array element: \<^verbatim>\<open>undefined\<close> (here \<open>None\<close>) past the end.\<close>

definition at :: "'a list \<Rightarrow> nat \<Rightarrow> 'a option" where
  "at xs i = (if i < length xs then Some (xs ! i) else None)"

text \<open>\<^verbatim>\<open>buffer.slice(begin, end)\<close> on a typed array, both ends clamped to the length.\<close>

definition slice :: "'a list \<Rightarrow> nat \<Rightarrow> nat \<Rightarrow> 'a list" where
  "slice xs b e = take (e - b) (drop b xs)"

subsection \<open>\<^verbatim>\<open>TextDecoder\<close> and \<^verbatim>\<open>TextEncoder\<close> (UTF-8, the platform's defaults)\<close>

text \<open>
  The decoder of the Encoding standard, in replacement mode: \<open>cp\<close> is the code point
  being assembled, \<open>need\<close> the continuation bytes still expected and \<open>lo\<close>, \<open>hi\<close> the
  bounds of the next one. A malformed sequence yields U+FFFD and the offending byte is
  read again as the start of a new sequence.
\<close>

fun utf8_decode :: "nat \<Rightarrow> nat \<Rightarrow> nat \<Rightarrow> nat \<Rightarrow> nat list \<Rightarrow> jsstring" where
  "utf8_decode cp 0 lo hi [] = []"
| "utf8_decode cp (Suc n) lo hi [] = [65533]"
| "utf8_decode cp 0 lo hi (b # bs) =
     (if b \<le> 127 then b # utf8_decode 0 0 128 191 bs
      else if 194 \<le> b \<and> b \<le> 223 then utf8_decode (b mod 32) 1 128 191 bs
      else if 224 \<le> b \<and> b \<le> 239 then
        utf8_decode (b mod 16) 2 (if b = 224 then 160 else 128) (if b = 237 then 159 else 191) bs
      else if 240 \<le> b \<and> b \<le> 244 then
        utf8_decode (b mod 8) 3 (if b = 240 then 144 else 128) (if b = 244 then 143 else 191) bs
      else 65533 # utf8_decode 0 0 128 191 bs)"
| "utf8_decode cp (Suc n) lo hi (b # bs) =
     (if b < lo \<or> hi < b then 65533 # utf8_decode 0 0 128 191 (b # bs)
      else if n = 0 then (cp * 64 + b mod 64) # utf8_decode 0 0 128 191 bs
      else utf8_decode (cp * 64 + b mod 64) n 128 191 bs)"

text \<open>\<^verbatim>\<open>new TextDecoder().decode(bytes)\<close>: a leading byte order mark is dropped.\<close>

definition TextDecoder_decode :: "byte list \<Rightarrow> jsstring" where
  "TextDecoder_decode bytes =
     (let ns = map unat bytes
      in utf8_decode 0 0 128 191 (if take 3 ns = [239, 187, 191] then drop 3 ns else ns))"

fun utf8_encode1 :: "nat \<Rightarrow> nat list" where
  "utf8_encode1 c =
     (if c < 128 then [c]
      else if c < 2048 then [192 + c div 64, 128 + c mod 64]
      else if 55296 \<le> c \<and> c \<le> 57343 then [239, 191, 189]
      else if c < 65536 then [224 + c div 4096, 128 + (c div 64) mod 64, 128 + c mod 64]
      else [240 + c div 262144, 128 + (c div 4096) mod 64, 128 + (c div 64) mod 64,
            128 + c mod 64])"

definition TextEncoder_encode :: "jsstring \<Rightarrow> byte list" where
  "TextEncoder_encode s = map of_nat (concat (map utf8_encode1 s))"

subsection \<open>Helper functions of the worker\<close>

text \<open>\<^verbatim>\<open>b.toString(16).padStart(2, '0')\<close> for a byte.\<close>

definition hexDigit :: "nat \<Rightarrow> nat" where
  "hexDigit n = (if n < 10 then 48 + n else 87 + n)"

definition byteHex :: "byte \<Rightarrow> jsstring" where
  "byteHex b = [hexDigit (unat b div 16), hexDigit (unat b mod 16)]"

definition arrayBufferToHexString :: "byte list \<Rightarrow> jsstring" where
  "arrayBufferToHexString buffer = concat (map byteHex buffer)"

definition formatUUID :: "jsstring \<Rightarrow> jsstring" where
  "formatUUID hex =
     substr hex 0 8 @ js ''-'' @ substr hex 8 4 @ js ''-'' @ substr hex 12 4 @ js ''-''
       @ substr hex 16 4 @ js ''-'' @ substr hex 20 12"

text \<open>
  \<^verbatim>\<open>UUID_REGEX.test(uuid)\<close>: groups of 8, 4, 4, 4 and 12 hexadecimal digits of either
  case, with a dash between two groups, and nothing else.
\<close>

definition isHexChar :: "nat \<Rightarrow> bool" where
  "isHexChar c = ((48 \<le> c \<and> c \<le> 57) \<or> (97 \<le> c \<and> c \<le> 102) \<or> (65 \<le> c \<and> c \<le> 70))"

definition validateUUID :: "jsstring \<Rightarrow> bool" where
  "validateUUID s =
     (length s = 36 \<and> list_all isHexChar (substr s 0 8) \<and> substr s 8 1 = js ''-''
      \<and> list_all isHexChar (substr s 9 4) \<and> substr s 13 1 = js ''-''
      \<and> list_all isHexChar (substr s 14 4) \<and> substr s 18 1 = js ''-''
      \<and> list_all isHexChar (substr s 19 4) \<and> substr s 23 1 = js ''-''
      \<and> list_all isHexChar (substr s 24 12))"

subsection \<open>Effects, the platform and the state of one connection\<close>

text \<open>
  What the worker does to the outside: \<^verbatim>\<open>websocket.send\<close>, \<^verbatim>\<open>websocket.close\<close>,
  \<^verbatim>\<open>fetch\<close> (the only outbound request in the file) and the console.
\<close>

record fetch_request =
  req_url :: jsstring
  req_method :: jsstring
  req_headers :: "(jsstring \<times> jsstring) list"
  req_body :: "jsstring option"

datatype effect =
    Send "byte list"
  | Close nat jsstring
  | Fetch fetch_request
  | ConsoleLog jsstring
  | ConsoleError jsstring

text \<open>
  The platform's answers: \<open>fetch_result\<close> is the body that
  \<^verbatim>\<open>(await fetch(url, init)).arrayBuffer()\<close> yields for a request the platform
  accepts, \<open>None\<close> when either throws;
  \<open>send_ok\<close> tells whether \<^verbatim>\<open>websocket.send\<close> returns (\<open>False\<close>: it throws).
  \<^verbatim>\<open>websocket.close\<close> with these short reasons does not throw.
\<close>

record platform =
  fetch_result :: "fetch_request \<Rightarrow> byte list option"
  send_ok :: "byte list \<Rightarrow> bool"

datatype message = Binary "byte list" | Text jsstring

datatype event = Message message | CloseEvent | ErrorEvent

text \<open>
  The \<^verbatim>\<open>message\<close> listener registered on the socket: \<^verbatim>\<open>firstMessageHandler\<close> (added
  with \<^verbatim>\<open>once: true\<close>), the \<^verbatim>\<open>messageHandler\<close> closure of \<^verbatim>\<open>proxyTCP(websocket, host, port)\<close>,
  or none.
\<close>

datatype listener = FirstMessageHandler | MessageHandler jsstring nat | NoHandler

text \<open>
  The variables of \<^verbatim>\<open>handleVLESSProtocol\<close> and the socket: \<open>chanOpen\<close> is false once
  \<^verbatim>\<open>websocket.close\<close> was called or the peer closed; a closed socket delivers no
  further message event.
\<close>

record session =
  userId :: "jsstring option"
  targetHost :: "jsstring option"
  targetPort :: "nat option"
  isUDP :: bool
  listener :: listener
  chanOpen :: bool

definition initial :: session where
  "initial = \<lparr>userId = None, targetHost = None, targetPort = None, isUDP = False,
              listener = FirstMessageHandler, chanOpen = True\<rparr>"

definition CRLF :: jsstring where
  "CRLF = [13, 10]"

fun join :: "jsstring list \<Rightarrow> jsstring \<Rightarrow> jsstring" where
  "join [] sep = []"
| "join [x] sep = x"
| "join (x # y # ys) sep = x @ sep @ join (y # ys) sep"

subsection \<open>The address field (lines 167 to 198)\<close>

text \<open>
  \<^verbatim>\<open>.replace(/(?:^|:)0{1,4}/g, ':')\<close>: from the left, a match is one to four \<open>0\<close>
  at the very start, or a colon and one to four \<open>0\<close> after it; each match becomes one
  colon. \<open>atStart\<close> holds at index 0 only; \<open>quota\<close> counts the \<open>0\<close> the match in
  progress may still take.
\<close>

fun replaceZeros :: "bool \<Rightarrow> nat \<Rightarrow> jsstring \<Rightarrow> jsstring" where
  "replaceZeros atStart quota [] = []"
| "replaceZeros atStart quota (c # cs) =
     (if 0 < quota \<and> c = 48 then replaceZeros False (quota - 1) cs
      else if atStart \<and> c = 48 then 58 # replaceZeros False 3 cs
      else if c = 58 \<and> startsWith cs [48] then 58 # replaceZeros False 4 cs
      else c # replaceZeros False 0 cs)"

text \<open>\<^verbatim>\<open>.replace(/^0{1,4}/, '')\<close>: up to four leading \<open>0\<close> are removed.\<close>

fun stripLeadingZeros :: "nat \<Rightarrow> jsstring \<Rightarrow> jsstring" where
  "stripLeadingZeros 0 s = s"
| "stripLeadingZeros (Suc n) [] = []"
| "stripLeadingZeros (Suc n) (c # cs) = (if c = 48 then stripLeadingZeros n cs else c # cs)"

text \<open>\<^verbatim>\<open>.replace(/:{2,}/g, '::')\<close>: every run of two or more colons becomes two.\<close>

fun collapseColons :: "bool \<Rightarrow> jsstring \<Rightarrow> jsstring" where
  "collapseColons inRun [] = []"
| "collapseColons inRun (c # cs) =
     (if c = 58 then
        (if inRun then collapseColons True cs
         else if startsWith cs [58] then 58 # 58 # collapseColons True cs
         else c # collapseColons False cs)
      else c # collapseColons False cs)"

definition ipv6Text :: "byte list \<Rightarrow> jsstring" where
  "ipv6Text ipv6Bytes =
     collapseColons False
       (stripLeadingZeros 4 (replaceZeros True 0 (join (map byteHex ipv6Bytes) (js '':''))))"

text \<open>A template substitution \<^verbatim>\<open>${buffer[i]}\<close>.\<close>

definition showByte :: "byte option \<Rightarrow> jsstring" where
  "showByte x = (case x of None \<Rightarrow> js ''undefined'' | Some b \<Rightarrow> decimal (unat b))"

text \<open>ToInt32 of an array element: \<^verbatim>\<open>undefined\<close> counts as 0 under \<^verbatim>\<open><<\<close> and \<^verbatim>\<open>|\<close>.\<close>

definition toInt :: "byte option \<Rightarrow> nat" where
  "toInt x = (case x of None \<Rightarrow> 0 | Some b \<Rightarrow> unat b)"

text \<open>
  The \<^verbatim>\<open>switch (addressType)\<close>: the pair of \<^verbatim>\<open>address\<close> and \<^verbatim>\<open>addressLength\<close>
  (\<open>None\<close> for NaN), or \<open>None\<close> for the \<^verbatim>\<open>default\<close> branch.
\<close>

definition parseAddress :: "byte list \<Rightarrow> (jsstring \<times> nat option) option" where
  "parseAddress buffer =
     (let addressType = at buffer 20
      in if addressType = Some 1 then
           Some (showByte (at buffer 21) @ js ''.'' @ showByte (at buffer 22) @ js ''.''
                   @ showByte (at buffer 23) @ js ''.'' @ showByte (at buffer 24), Some 4)
         else if addressType = Some 2 then
           (let domainLength = at buffer 21;
                domainBytes = (case domainLength of None \<Rightarrow> []
                               | Some l \<Rightarrow> slice buffer 22 (22 + unat l))
            in Some (TextDecoder_decode domainBytes,
                     map_option (\<lambda>l. 1 + unat l) domainLength))
         else if addressType = Some 3 then Some (ipv6Text (slice buffer 21 37), Some 16)
         else None)"

subsection \<open>\<^verbatim>\<open>handleUDP\<close> and \<^verbatim>\<open>proxyTCP\<close>\<close>

text \<open>The effects so far and whether the code threw.\<close>

type_synonym 'a attempt = "effect list \<times> 'a \<times> bool"

definition udpResponse :: "jsstring \<Rightarrow> nat \<Rightarrow> byte list" where
  "udpResponse host port =
     TextEncoder_encode
       (js ''UDP to '' @ host @ js '':'' @ decimal port @ js '' received (simulated)'')"

definition handleUDP :: "platform \<Rightarrow> jsstring \<Rightarrow> nat \<Rightarrow> effect list \<times> bool" where
  "handleUDP plat host port =
     (let response = udpResponse host port
      in if send_ok plat response then ([Send response], False) else ([], True))"

text \<open>
  \<^verbatim>\<open>requestInit.headers[key] = value\<close> on an object that started as \<^verbatim>\<open>{}\<close>, for a
  string \<open>v\<close>. The key \<^verbatim>\<open>__proto__\<close> is the one key that is no data property of the
  prototype: its inherited setter ignores a string, so no property is created. Any other
  key is overwritten in place or added at the end.
\<close>

definition setProperty :: "jsstring \<Rightarrow> jsstring \<Rightarrow> (jsstring \<times> jsstring) list \<Rightarrow> (jsstring \<times> jsstring) list" where
  "setProperty k v hs =
     (if k = js ''__proto__'' then hs
      else if k \<in> fst ` set hs
      then map (\<lambda>(k', v'). if k' = k then (k', v) else (k', v')) hs
      else hs @ [(k, v)])"

text \<open>
  The header loop over \<^verbatim>\<open>lines[1..]\<close>: it stops at the first empty line and keeps a
  line only when both pieces around its first \<^verbatim>\<open>': '\<close> are non-empty. The object
  \<^verbatim>\<open>requestInit.headers\<close> is an association list in insertion order (the order in
  which an object lists its keys is observed by no property below).
\<close>

fun parseHeaders :: "jsstring list \<Rightarrow> (jsstring \<times> jsstring) list \<Rightarrow> (jsstring \<times> jsstring) list" where
  "parseHeaders [] hs = hs"
| "parseHeaders (l # ls) hs =
     (if l = [] then hs
      else (case split l (js '': '') of
              k # v # _ \<Rightarrow>
                if k \<noteq> [] \<and> v \<noteq> [] then parseHeaders ls (setProperty k v hs)
                else parseHeaders ls hs
            | _ \<Rightarrow> parseHeaders ls hs))"

definition requestInit :: "jsstring \<Rightarrow> fetch_request" where
  "requestInit text =
     \<lparr>req_url = [],
      req_method = hd (split text (js '' '')),
      req_headers = parseHeaders (tl (split text CRLF)) [],
      req_body = (if includes_str text (CRLF @ CRLF)
                  then Some (split text (CRLF @ CRLF) ! 1) else None)\<rparr>"

text \<open>The condition of line 254.\<close>

definition looksHttp :: "jsstring \<Rightarrow> nat \<Rightarrow> bool" where
  "looksHttp host port =
     (port = 80 \<or> port = 443 \<or> includes_str host (js ''.com'') \<or> includes_str host (js ''.org'')
        \<or> includes_str host (js ''.net''))"

text \<open>The test of line 258 on the decoded text.\<close>

definition isHttpText :: "jsstring \<Rightarrow> bool" where
  "isHttpText text =
     (startsWith text (js ''GET '') \<or> startsWith text (js ''POST '')
        \<or> startsWith text (js ''CONNECT ''))"

text \<open>Line 260, and the two arguments of \<^verbatim>\<open>fetch\<close> as one request.\<close>

definition targetUrl :: "jsstring \<Rightarrow> nat \<Rightarrow> jsstring" where
  "targetUrl host port =
     js ''http'' @ (if port = 443 then js ''s'' else []) @ js ''://'' @ host @ js '':''
       @ decimal port"

definition httpRequest :: "jsstring \<Rightarrow> nat \<Rightarrow> jsstring \<Rightarrow> fetch_request" where
  "httpRequest host port text = (requestInit text)\<lparr>req_url := targetUrl host port\<rparr>"

definition connectionEstablished :: "byte list" where
  "connectionEstablished =
     TextEncoder_encode (js ''HTTP/1.1 200 Connection Established'' @ CRLF @ CRLF)"

definition badGateway :: "byte list" where
  "badGateway = TextEncoder_encode (js ''HTTP/1.1 502 Bad Gateway'' @ CRLF @ CRLF)"

text \<open>
  \<^verbatim>\<open>(await fetch(url, requestInit)).arrayBuffer()\<close>: \<^verbatim>\<open>fetch\<close> throws a \<^verbatim>\<open>TypeError\<close>,
  before anything is asked of the network, when the method is \<^verbatim>\<open>GET\<close> or \<^verbatim>\<open>HEAD\<close> (in
  either case of the letters) and the body is not \<^verbatim>\<open>null\<close>; the empty string is not
  \<^verbatim>\<open>null\<close>. Otherwise the platform answers.
\<close>

definition fetchCall :: "platform \<Rightarrow> fetch_request \<Rightarrow> byte list option" where
  "fetchCall plat req =
     (if (toLowerCase (req_method req) = js ''get'' \<or> toLowerCase (req_method req) = js ''head'')
          \<and> req_body req \<noteq> None
      then None
      else fetch_result plat req)"

text \<open>
  The inner \<^verbatim>\<open>try\<close> block of \<^verbatim>\<open>messageHandler\<close> (lines 262 to 298): the effects (a
  \<open>Fetch\<close> is a call of \<^verbatim>\<open>fetch\<close>), whether the socket was closed, and whether the
  block threw.
\<close>

definition fetchBlock :: "platform \<Rightarrow> jsstring \<Rightarrow> nat \<Rightarrow> jsstring \<Rightarrow> bool attempt" where
  "fetchBlock plat host port text =
     (if startsWith text (js ''CONNECT '') then
        (let response = connectionEstablished
         in if send_ok plat response
            then ([Send response, Close 1000 (js ''CONNECT not fully supported'')], True, False)
            else ([], False, True))
      else
        (let req = httpRequest host port text
         in case fetchCall plat req of
              None \<Rightarrow> ([Fetch req], False, True)
            | Some responseBody \<Rightarrow>
                if send_ok plat responseBody then ([Fetch req, Send responseBody], False, False)
                else ([Fetch req], False, True)))"

text \<open>
  \<^verbatim>\<open>messageHandler\<close> of \<^verbatim>\<open>proxyTCP\<close>, run to completion for one message: the effects
  and whether the socket was closed. Nothing escapes its outer \<^verbatim>\<open>try\<close>. The handler is
  asynchronous; it is modelled with the answer to its \<^verbatim>\<open>fetch\<close> arriving before the next
  message is handled.
\<close>

definition messageHandler :: "platform \<Rightarrow> jsstring \<Rightarrow> nat \<Rightarrow> message \<Rightarrow> effect list \<times> bool" where
  "messageHandler plat host port data =
     (case data of
        Text _ \<Rightarrow> ([], False)
      | Binary bytes \<Rightarrow>
          (let echo = (if send_ok plat bytes then ([Send bytes], False)
                       else ([ConsoleError (js ''Proxy error:'')], False));
               text = TextDecoder_decode bytes
           in if looksHttp host port then
                (if isHttpText text then
                   (case fetchBlock plat host port text of
                      (es, closed, False) \<Rightarrow> (es, closed)
                    | (es, closed, True) \<Rightarrow>
                        if send_ok plat badGateway
                        then (es @ [ConsoleError (js ''Fetch error:''), Send badGateway], closed)
                        else (es @ [ConsoleError (js ''Fetch error:''),
                                    ConsoleError (js ''Proxy error:'')], closed))
                 else echo)
              else echo))"

subsection \<open>\<^verbatim>\<open>handleVLESSProtocol\<close>\<close>

definition showOpt :: "jsstring option \<Rightarrow> jsstring" where
  "showOpt x = (case x of None \<Rightarrow> js ''null'' | Some s \<Rightarrow> s)"

text \<open>Line 149: the lookup in \<^verbatim>\<open>VLESS_USERS\<close>, here the argument \<open>users\<close>.\<close>

definition findUser :: "user list \<Rightarrow> jsstring \<Rightarrow> user option" where
  "findUser users uuidStr = find (\<lambda>u. toLowerCase (uuid u) = toLowerCase uuidStr) users"

text \<open>Lines 144 to 146: the UUID string of the first sixteen bytes.\<close>

definition uuidOf :: "byte list \<Rightarrow> jsstring" where
  "uuidOf buffer =
     (let uuidBytes = slice buffer 0 16;
          uuidHex = arrayBufferToHexString uuidBytes
      in formatUUID uuidHex)"

text \<open>Line 165: \<^verbatim>\<open>(buffer[18] << 8) | buffer[19]\<close>.\<close>

definition portOf :: "byte list \<Rightarrow> nat" where
  "portOf buffer = push_bit 8 (toInt (at buffer 18)) OR toInt (at buffer 19)"

text \<open>Line 206.\<close>

definition connectionLine :: "jsstring \<Rightarrow> jsstring \<Rightarrow> nat \<Rightarrow> bool \<Rightarrow> effect" where
  "connectionLine uuidStr address port udp =
     ConsoleLog (js ''VLESS Connection: '' @ uuidStr @ js '' -> '' @ address @ js '':''
                   @ decimal port @ (if udp then js '' UDP'' else js '' TCP''))"

text \<open>
  The \<^verbatim>\<open>try\<close> block of \<^verbatim>\<open>firstMessageHandler\<close>: effects, the variables and the socket
  after it, and whether it threw. \<^verbatim>\<open>VLESS_USERS\<close> is the argument \<open>users\<close>.
\<close>

definition firstMessageTry :: "user list \<Rightarrow> platform \<Rightarrow> session \<Rightarrow> message \<Rightarrow> session attempt" where
  "firstMessageTry users plat s data =
     (case data of
        Text _ \<Rightarrow> ([Close 1008 (js ''Invalid data format'')], s\<lparr>chanOpen := False\<rparr>, False)
      | Binary buffer \<Rightarrow>
          (let uuidStr = uuidOf buffer
           in case findUser users uuidStr of
                None \<Rightarrow>
                  ([ConsoleLog (js ''Invalid UUID: '' @ uuidStr), Close 1008 (js ''Invalid user'')],
                   s\<lparr>chanOpen := False\<rparr>, False)
              | Some usr \<Rightarrow>
                  (let s1 = s\<lparr>userId := Some uuidStr\<rparr>;
                       command = at buffer 17;
                       port = portOf buffer
                   in case parseAddress buffer of
                        None \<Rightarrow>
                          ([Close 1008 (js ''Invalid address type'')], s1\<lparr>chanOpen := False\<rparr>, False)
                      | Some (address, addressLength) \<Rightarrow>
                          (let s2 = s1\<lparr>targetHost := Some address, targetPort := Some port,
                                       isUDP := (command = Some 2)\<rparr>;
                               line = connectionLine uuidStr address port (isUDP s2);
                               response = [0, 0]
                           in if \<not> send_ok plat response then ([line], s2, True)
                              else if \<not> isUDP s2 then
                                ([line, Send response],
                                 s2\<lparr>listener := MessageHandler address port\<rparr>, False)
                              else (case handleUDP plat address port of
                                      (es, threw) \<Rightarrow> ([line, Send response] @ es, s2, threw))))))"

text \<open>\<^verbatim>\<open>firstMessageHandler\<close> with its \<^verbatim>\<open>catch\<close>.\<close>

definition firstMessageHandler :: "user list \<Rightarrow> platform \<Rightarrow> session \<Rightarrow> message \<Rightarrow> effect list \<times> session" where
  "firstMessageHandler users plat s data =
     (case firstMessageTry users plat s data of
        (es, s', False) \<Rightarrow> (es, s')
      | (es, s', True) \<Rightarrow>
          (es @ [ConsoleError (js ''VLESS protocol error:''), Close 1011 (js ''Protocol error'')],
           s'\<lparr>chanOpen := False\<rparr>))"

text \<open>
  One event on the socket. A \<^verbatim>\<open>once\<close> listener is removed before it runs; a listener
  added while a message is dispatched does not see that message.
\<close>

definition dispatch :: "user list \<Rightarrow> platform \<Rightarrow> session \<Rightarrow> event \<Rightarrow> effect list \<times> session" where
  "dispatch users plat s ev =
     (case ev of
        Message data \<Rightarrow>
          (if \<not> chanOpen s then ([], s)
           else case listener s of
                  FirstMessageHandler \<Rightarrow>
                    firstMessageHandler users plat (s\<lparr>listener := NoHandler\<rparr>) data
                | MessageHandler host port \<Rightarrow>
                    (case messageHandler plat host port data of
                       (es, closed) \<Rightarrow> (es, if closed then s\<lparr>chanOpen := False\<rparr> else s))
                | NoHandler \<Rightarrow> ([], s))
      | CloseEvent \<Rightarrow>
          ([ConsoleLog (js ''VLESS connection closed: '' @ showOpt (userId s) @ js '' ''
                          @ showOpt (targetHost s) @ js '':''
                          @ showOpt (map_option decimal (targetPort s)))],
           s\<lparr>chanOpen := False\<rparr>)
      | ErrorEvent \<Rightarrow> ([ConsoleError (js ''WebSocket error:'')], s))"

text \<open>The effects of a connection over a sequence of events, and its final state.\<close>

fun run :: "user list \<Rightarrow> platform \<Rightarrow> session \<Rightarrow> event list \<Rightarrow> effect list \<times> session" where
  "run users plat s [] = ([], s)"
| "run users plat s (ev # evs) =
     (case dispatch users plat s ev of
        (es, s') \<Rightarrow> (case run users plat s' evs of (es', s'') \<Rightarrow> (es @ es', s'')))"

definition handleVLESSProtocol :: "user list \<Rightarrow> platform \<Rightarrow> event list \<Rightarrow> effect list \<times> session" where
  "handleVLESSProtocol users plat evs = run users plat initial evs"

subsection \<open>Notions the properties are stated with\<close>

text \<open>
  \<open>parsesHandshake s ev\<close>: the event is one on which \<open>dispatch\<close> calls
  \<^verbatim>\<open>firstMessageHandler\<close>; \<open>handshakes\<close> counts these events along a run.
\<close>

definition parsesHandshake :: "session \<Rightarrow> event \<Rightarrow> bool" where
  "parsesHandshake s ev =
     (case ev of Message _ \<Rightarrow> chanOpen s \<and> listener s = FirstMessageHandler | _ \<Rightarrow> False)"

fun handshakes :: "user list \<Rightarrow> platform \<Rightarrow> session \<Rightarrow> event list \<Rightarrow> nat" where
  "handshakes users plat s [] = 0"
| "handshakes users plat s (ev # evs) =
     (if parsesHandshake s ev then 1 else 0)
       + handshakes users plat (snd (dispatch users plat s ev)) evs"

text \<open>
  The sixteen bytes a UUID string stands for: its hexadecimal digits, read in pairs.
\<close>

definition hexValue :: "nat \<Rightarrow> nat" where
  "hexValue c =
     (if 48 \<le> c \<and> c \<le> 57 then c - 48
      else if 97 \<le> c \<and> c \<le> 102 then c - 87
      else if 65 \<le> c \<and> c \<le> 70 then c - 55
      else 0)"

fun hexPairs :: "jsstring \<Rightarrow> byte list" where
  "hexPairs (a # b # cs) = of_nat (16 * hexValue a + hexValue b) # hexPairs cs"
| "hexPairs cs = []"

definition identifierOf :: "jsstring \<Rightarrow> byte list" where
  "identifierOf s = hexPairs (filter (\<lambda>c. c \<noteq> 45) s)"

definition lc :: "nat \<Rightarrow> nat" where
  "lc c = (if 65 \<le> c \<and> c \<le> 90 then c + 32 else c)"

fun isSend :: "effect \<Rightarrow> bool" where
  "isSend (Send _) = True"
| "isSend _ = False"

fun isFetch :: "effect \<Rightarrow> bool" where
  "isFetch (Fetch _) = True"
| "isFetch _ = False"

fun isConsole :: "effect \<Rightarrow> bool" where
  "isConsole (ConsoleLog _) = True"
| "isConsole (ConsoleError _) = True"
| "isConsole _ = False"

text \<open>The identifier of the configured user, and first messages built on it.\<close>

definition user1 :: "byte list" where
  "user1 = [0x62, 0xa9, 0xad, 0xef, 0x40, 0xb2, 0x47, 0x7a,
            0x86, 0x1f, 0xce, 0x1e, 0x86, 0x04, 0xbc, 0x34]"

definition helloTcp :: "byte list" where
  "helloTcp = user1 @ [0, 1, 0x1f, 0x90, 1, 1, 2, 3, 4]"

definition helloHttp :: "byte list" where
  "helloHttp = user1 @ [0, 1, 0, 80, 1, 1, 2, 3, 4]"

definition helloCommand3 :: "byte list" where
  "helloCommand3 = user1 @ [0, 3, 0, 80, 1, 1, 2, 3, 4]"

definition helloUdp :: "byte list" where
  "helloUdp = user1 @ [0, 2, 0, 53, 1, 8, 8, 8, 8]"

definition helloIPv6 :: "byte list" where
  "helloIPv6 = user1 @ [0, 1, 1, 187, 3] @ replicate 16 255"

text \<open>Relay messages: two HTTP requests, and three bytes that are no HTTP request.\<close>

definition getRequest :: "byte list" where
  "getRequest =
     TextEncoder_encode (js ''GET / HTTP/1.1'' @ CRLF @ js ''Host: example.com'' @ CRLF @ CRLF)"

definition postRequest :: "byte list" where
  "postRequest =
     TextEncoder_encode
       (js ''POST /submit HTTP/1.1'' @ CRLF @ js ''Host: example.com'' @ CRLF @ CRLF
          @ js ''hello'')"

definition rawBytes :: "byte list" where
  "rawBytes = [1, 2, 3]"

text \<open>One datagram in the framing of the UDP relay: length 1, payload 65.\<close>

definition udpDatagram :: "byte list" where
  "udpDatagram = [0, 1, 65]"

text \<open>A platform on which every send returns and every fetch is answered with two bytes.\<close>

definition cannedPlatform :: platform where
  "cannedPlatform = \<lparr>fetch_result = (\<lambda>_. Some [79, 75]), send_ok = (\<lambda>_. True)\<rparr>"

text \<open>A platform on which every send returns and every fetch fails.\<close>

definition offlinePlatform :: platform where
  "offlinePlatform = \<lparr>fetch_result = (\<lambda>_. None), send_ok = (\<lambda>_. True)\<rparr>"

text \<open>A platform on which every send throws.\<close>

definition deafPlatform :: platform where
  "deafPlatform = \<lparr>fetch_result = (\<lambda>_. None), send_ok = (\<lambda>_. False)\<rparr>"

section \<open>Properties\<close>

subsection \<open>UUID strings and identifier bytes\<close>

lemma hexValue_hexDigit: "n < 16 \<Longrightarrow> hexValue (hexDigit n) = n"
  by (auto simp: hexValue_def hexDigit_def)

lemma hexDigit_not_dash: "n < 16 \<Longrightarrow> hexDigit n \<noteq> 45"
  by (auto simp: hexDigit_def)

lemma hexDigit_lower: "n < 16 \<Longrightarrow> \<not> (65 \<le> hexDigit n \<and> hexDigit n \<le> 90)"
  by (auto simp: hexDigit_def)

lemma unat_byte_div: "unat (b :: byte) div 16 < 16"
  using unsigned_less [of b, where ?'a = nat] by simp

lemma hexPairs_hex: "hexPairs (arrayBufferToHexString bs) = bs"
  by (induction bs) (simp_all add: arrayBufferToHexString_def byteHex_def hexValue_hexDigit unat_byte_div)

lemma hex_no_dash: "45 \<notin> set (arrayBufferToHexString bs)"
  by (induction bs) (auto simp: arrayBufferToHexString_def byteHex_def hexDigit_not_dash unat_byte_div)

lemma length_hex: "length (arrayBufferToHexString bs) = 2 * length bs"
  by (induction bs) (simp_all add: arrayBufferToHexString_def byteHex_def)

lemma toLowerCase_hex: "toLowerCase (arrayBufferToHexString bs) = arrayBufferToHexString bs"
  using hexDigit_lower unat_byte_div
  by (induction bs) (simp_all add: arrayBufferToHexString_def byteHex_def toLowerCase_def)

lemma substr_parts:
  "length h = 32 \<Longrightarrow>
   substr h 0 8 @ substr h 8 4 @ substr h 12 4 @ substr h 16 4 @ substr h 20 12 = h"
proof -
  assume l: "length h = 32"
  have a: "take 8 h @ take 4 (drop 8 h) = take 12 h" using take_add [of 8 4 h] by simp
  have b: "take 12 h @ take 4 (drop 12 h) = take 16 h" using take_add [of 12 4 h] by simp
  have c: "take 16 h @ take 4 (drop 16 h) = take 20 h" using take_add [of 16 4 h] by simp
  have d: "take 20 h @ take 12 (drop 20 h) = h" using take_add [of 20 12 h] l by simp
  have "take 8 h @ take 4 (drop 8 h) @ take 4 (drop 12 h) @ take 4 (drop 16 h) @ take 12 (drop 20 h)
      = ((((take 8 h @ take 4 (drop 8 h)) @ take 4 (drop 12 h)) @ take 4 (drop 16 h)) @ take 12 (drop 20 h))"
    by simp
  also have "\<dots> = h" by (simp only: a b c d)
  finally show ?thesis by (simp add: substr_def)
qed

lemma js_dash: "js ''-'' = [45]"
  by (simp add: js_def)

lemma filter_formatUUID:
  assumes "length h = 32" "45 \<notin> set h"
  shows "filter (\<lambda>c. c \<noteq> 45) (formatUUID h) = h"
proof -
  have f: "\<And>n k. filter (\<lambda>c. c \<noteq> 45) (substr h n k) = substr h n k"
    using assms(2) by (auto simp: substr_def filter_id_conv dest!: in_set_takeD in_set_dropD)
  show ?thesis
    using substr_parts [OF assms(1)] by (simp add: formatUUID_def js_dash f)
qed

lemma identifierOf_formatUUID:
  "length ident = 16 \<Longrightarrow> identifierOf (formatUUID (arrayBufferToHexString ident)) = ident"
  by (simp add: identifierOf_def filter_formatUUID length_hex hex_no_dash hexPairs_hex)

lemma toLowerCase_formatUUID:
  "toLowerCase (formatUUID (arrayBufferToHexString bs)) = formatUUID (arrayBufferToHexString bs)"
proof -
  have "\<And>s n k. toLowerCase s = s \<Longrightarrow> toLowerCase (substr s n k) = substr s n k"
    by (simp add: toLowerCase_def substr_def take_map [symmetric] drop_map [symmetric])
  from this [OF toLowerCase_hex] show ?thesis
    by (simp add: formatUUID_def js_dash) (simp add: toLowerCase_def)
qed


lemma hexValue_less: "hexValue c < 16"
  by (auto simp: hexValue_def)

lemma hexDigit_hexValue: "isHexChar c \<Longrightarrow> hexDigit (hexValue c) = lc c"
  by (auto simp: hexValue_def hexDigit_def isHexChar_def lc_def)

lemma isHexChar_not_dash: "isHexChar c \<Longrightarrow> c \<noteq> 45"
  by (auto simp: isHexChar_def)

lemma byteHex_of_nat:
  "n < 256 \<Longrightarrow> byteHex (of_nat n) = [hexDigit (n div 16), hexDigit (n mod 16)]"
  by (simp add: byteHex_def unat_of_nat)

lemma byteHex_pair:
  assumes "isHexChar a" "isHexChar b"
  shows "byteHex (of_nat (16 * hexValue a + hexValue b)) = [lc a, lc b]"
proof -
  have "16 * hexValue a + hexValue b < 256"
    using hexValue_less [of a] hexValue_less [of b] by simp
  from byteHex_of_nat [OF this] show ?thesis
    using hexValue_less [of b] assms by (simp add: hexDigit_hexValue)
qed

lemma hexValue_lc: "hexValue (lc c) = hexValue c"
  by (auto simp: hexValue_def lc_def)

lemma identifierOf_toLowerCase: "identifierOf (toLowerCase s) = identifierOf s"
proof -
  have f: "filter (\<lambda>c. c \<noteq> 45) (map lc s) = map lc (filter (\<lambda>c. c \<noteq> 45) s)"
    by (induction s) (auto simp: lc_def)
  have h: "\<And>t. hexPairs (map lc t) = hexPairs t"
  proof -
    fix t show "hexPairs (map lc t) = hexPairs t"
      by (induction t rule: hexPairs.induct) (simp_all add: hexValue_lc)
  qed
  have "toLowerCase s = map lc s" by (simp add: toLowerCase_def lc_def)
  then show ?thesis by (simp add: identifierOf_def f h)
qed

lemma toLowerCase_lc: "toLowerCase s = map lc s"
  by (simp add: toLowerCase_def lc_def)

lemma hex_hexPairs:
  "list_all isHexChar h \<Longrightarrow> even (length h) \<Longrightarrow>
   arrayBufferToHexString (hexPairs h) = map lc h"
proof (induction h rule: hexPairs.induct)
  case (1 a b cs)
  then show ?case
    using byteHex_pair [of a b] by (simp add: arrayBufferToHexString_def)
qed (simp_all add: arrayBufferToHexString_def)

lemma filter_hex: "list_all isHexChar p \<Longrightarrow> filter (\<lambda>c. c \<noteq> 45) p = p"
  by (induction p) (auto simp: isHexChar_not_dash)

lemma uuid_parts:
  assumes "length s = 36"
  shows "s = substr s 0 8 @ substr s 8 1 @ substr s 9 4 @ substr s 13 1 @ substr s 14 4
             @ substr s 18 1 @ substr s 19 4 @ substr s 23 1 @ substr s 24 12"
proof -
  have a: "take 8 s @ take 1 (drop 8 s) = take 9 s" using take_add [of 8 1 s] by simp
  have b: "take 9 s @ take 4 (drop 9 s) = take 13 s" using take_add [of 9 4 s] by simp
  have c: "take 13 s @ take 1 (drop 13 s) = take 14 s" using take_add [of 13 1 s] by simp
  have d: "take 14 s @ take 4 (drop 14 s) = take 18 s" using take_add [of 14 4 s] by simp
  have e: "take 18 s @ take 1 (drop 18 s) = take 19 s" using take_add [of 18 1 s] by simp
  have f: "take 19 s @ take 4 (drop 19 s) = take 23 s" using take_add [of 19 4 s] by simp
  have g: "take 23 s @ take 1 (drop 23 s) = take 24 s" using take_add [of 23 1 s] by simp
  have h: "take 24 s @ take 12 (drop 24 s) = s" using take_add [of 24 12 s] assms by simp
  have "s = (((((((take 8 s @ take 1 (drop 8 s)) @ take 4 (drop 9 s)) @ take 1 (drop 13 s))
             @ take 4 (drop 14 s)) @ take 1 (drop 18 s)) @ take 4 (drop 19 s))
             @ take 1 (drop 23 s)) @ take 12 (drop 24 s)"
    by (simp only: a b c d e f g h)
  then show ?thesis by (simp add: substr_def)
qed

lemma format_parts:
  assumes "list_all isHexChar p1" "list_all isHexChar p2" "list_all isHexChar p3"
    "list_all isHexChar p4" "list_all isHexChar p5"
    "length p1 = 8" "length p2 = 4" "length p3 = 4" "length p4 = 4" "length p5 = 12"
  shows "formatUUID (arrayBufferToHexString
           (identifierOf (p1 @ [45] @ p2 @ [45] @ p3 @ [45] @ p4 @ [45] @ p5)))
         = toLowerCase (p1 @ [45] @ p2 @ [45] @ p3 @ [45] @ p4 @ [45] @ p5)"
proof -
  have i: "identifierOf (p1 @ [45] @ p2 @ [45] @ p3 @ [45] @ p4 @ [45] @ p5)
           = hexPairs (p1 @ p2 @ p3 @ p4 @ p5)"
    using assms by (simp add: identifierOf_def filter_hex)
  have h: "arrayBufferToHexString (hexPairs (p1 @ p2 @ p3 @ p4 @ p5))
           = map lc p1 @ map lc p2 @ map lc p3 @ map lc p4 @ map lc p5"
    using assms hex_hexPairs [of "p1 @ p2 @ p3 @ p4 @ p5"] by simp
  show ?thesis
    unfolding i h using assms
    by (simp add: formatUUID_def substr_def js_dash toLowerCase_lc lc_def)
qed

lemma valid_roundtrip:
  assumes "validateUUID s"
  shows "formatUUID (arrayBufferToHexString (identifierOf s)) = toLowerCase s"
proof -
  from assms have l: "length s = 36" by (simp add: validateUUID_def)
  have "formatUUID (arrayBufferToHexString
           (identifierOf (substr s 0 8 @ [45] @ substr s 9 4 @ [45] @ substr s 14 4 @ [45]
              @ substr s 19 4 @ [45] @ substr s 24 12)))
        = toLowerCase (substr s 0 8 @ [45] @ substr s 9 4 @ [45] @ substr s 14 4 @ [45]
              @ substr s 19 4 @ [45] @ substr s 24 12)"
    using assms l by (intro format_parts) (simp_all add: validateUUID_def substr_def)
  moreover have "substr s 0 8 @ [45] @ substr s 9 4 @ [45] @ substr s 14 4 @ [45]
              @ substr s 19 4 @ [45] @ substr s 24 12 = s"
    using uuid_parts [OF l] assms by (simp add: validateUUID_def js_dash)
  ultimately show ?thesis by simp
qed


subsection \<open>The listener of a connection\<close>

lemma firstMessageTry_listener:
  "listener (fst (snd (firstMessageTry users plat s data))) = listener s
     \<or> (\<exists>h p. listener (fst (snd (firstMessageTry users plat s data))) = MessageHandler h p)"
  by (auto simp: firstMessageTry_def Let_def split: message.splits option.splits prod.splits)

lemma firstMessageHandler_listener:
  "listener (snd (firstMessageHandler users plat s data)) = listener s
     \<or> (\<exists>h p. listener (snd (firstMessageHandler users plat s data)) = MessageHandler h p)"
  using firstMessageTry_listener [of users plat s data]
  by (cases "firstMessageTry users plat s data") (auto simp: firstMessageHandler_def split: bool.splits)

lemma firstMessageHandler_keeps:
  "listener s \<noteq> FirstMessageHandler \<Longrightarrow>
   listener (snd (firstMessageHandler users plat s data)) \<noteq> FirstMessageHandler"
  using firstMessageHandler_listener [of users plat s data] by auto

lemma snd_run_Cons:
  "snd (run users plat s (ev # evs)) = snd (run users plat (snd (dispatch users plat s ev)) evs)"
  by (simp split: prod.splits)

lemma fst_run_Cons:
  "fst (run users plat s (ev # evs)) =
     fst (dispatch users plat s ev) @ fst (run users plat (snd (dispatch users plat s ev)) evs)"
  by (simp split: prod.splits)

lemma dispatch_listener:
  "listener s \<noteq> FirstMessageHandler \<Longrightarrow>
   listener (snd (dispatch users plat s ev)) \<noteq> FirstMessageHandler"
  by (auto simp: dispatch_def firstMessageHandler_keeps
           split: event.splits listener.splits prod.splits)

lemma dispatch_first:
  "parsesHandshake s ev \<Longrightarrow> listener (snd (dispatch users plat s ev)) \<noteq> FirstMessageHandler"
  by (cases ev) (simp_all add: dispatch_def parsesHandshake_def firstMessageHandler_keeps)


lemma handshakes_none:
  "listener s \<noteq> FirstMessageHandler \<Longrightarrow> handshakes users plat s evs = 0"
proof (induction evs arbitrary: s)
  case Nil
  then show ?case by simp
next
  case (Cons ev evs)
  from Cons.prems have "listener (snd (dispatch users plat s ev)) \<noteq> FirstMessageHandler"
    by (rule dispatch_listener)
  from Cons.IH [OF this] Cons.prems show ?case
    by (simp add: parsesHandshake_def split: event.splits)
qed

lemma handshakes_le_1: "handshakes users plat s evs \<le> 1"
proof (induction evs arbitrary: s)
  case Nil
  then show ?case by simp
next
  case (Cons ev evs)
  show ?case
  proof (cases "parsesHandshake s ev")
    case True
    then have "handshakes users plat (snd (dispatch users plat s ev)) evs = 0"
      by (intro handshakes_none dispatch_first)
    with True show ?thesis by simp
  next
    case False
    with Cons.IH show ?thesis by simp
  qed
qed



subsection \<open>Authentication\<close>

lemma match_iff:
  assumes "validateUUID (uuid u)" "length ident = 16"
  shows "toLowerCase (uuid u) = toLowerCase (formatUUID (arrayBufferToHexString ident))
         \<longleftrightarrow> identifierOf (uuid u) = ident"
proof
  assume "toLowerCase (uuid u) = toLowerCase (formatUUID (arrayBufferToHexString ident))"
  then have "toLowerCase (uuid u) = formatUUID (arrayBufferToHexString ident)"
    by (simp only: toLowerCase_formatUUID)
  then have "identifierOf (toLowerCase (uuid u)) = ident"
    using assms(2) by (simp add: identifierOf_formatUUID)
  then show "identifierOf (uuid u) = ident"
    by (simp only: identifierOf_toLowerCase)
next
  assume "identifierOf (uuid u) = ident"
  with valid_roundtrip [OF assms(1)]
  have "toLowerCase (uuid u) = formatUUID (arrayBufferToHexString ident)"
    by simp
  also have "\<dots> = toLowerCase (formatUUID (arrayBufferToHexString ident))"
    by (rule toLowerCase_formatUUID [symmetric])
  finally show "toLowerCase (uuid u) = toLowerCase (formatUUID (arrayBufferToHexString ident))" .
qed

lemma uuidOf_append: "length ident = 16 \<Longrightarrow> uuidOf (ident @ rest) = formatUUID (arrayBufferToHexString ident)"
  by (simp add: uuidOf_def slice_def)

lemma findUser_iff:
  assumes "\<forall>u\<in>set users. validateUUID (uuid u)" "length ident = 16"
  shows "findUser users (uuidOf (ident @ rest)) \<noteq> None
         \<longleftrightarrow> ident \<in> identifierOf ` uuid ` set users"
proof -
  have "findUser users (uuidOf (ident @ rest)) \<noteq> None
        \<longleftrightarrow> (\<exists>u\<in>set users. toLowerCase (uuid u)
                   = toLowerCase (formatUUID (arrayBufferToHexString ident)))"
    using assms(2) by (auto simp: findUser_def find_None_iff uuidOf_append)
  also have "\<dots> \<longleftrightarrow> (\<exists>u\<in>set users. identifierOf (uuid u) = ident)"
    using assms match_iff by blast
  also have "\<dots> \<longleftrightarrow> ident \<in> identifierOf ` uuid ` set users"
    by auto
  finally show ?thesis .
qed

subsection \<open>What the first-message handler does, case by case\<close>

lemma fmh_text:
  "firstMessageHandler users plat s (Text t)
     = ([Close 1008 (js ''Invalid data format'')], s\<lparr>chanOpen := False\<rparr>)"
  by (simp add: firstMessageHandler_def firstMessageTry_def Let_def)

lemma fmh_invalid_user:
  "findUser users (uuidOf buffer) = None \<Longrightarrow>
   firstMessageHandler users plat s (Binary buffer)
     = ([ConsoleLog (js ''Invalid UUID: '' @ uuidOf buffer), Close 1008 (js ''Invalid user'')],
        s\<lparr>chanOpen := False\<rparr>)"
  by (simp add: firstMessageHandler_def firstMessageTry_def Let_def)

lemma fmh_invalid_address:
  "findUser users (uuidOf buffer) = Some u \<Longrightarrow> parseAddress buffer = None \<Longrightarrow>
   firstMessageHandler users plat s (Binary buffer)
     = ([Close 1008 (js ''Invalid address type'')],
        s\<lparr>userId := Some (uuidOf buffer), chanOpen := False\<rparr>)"
  by (simp add: firstMessageHandler_def firstMessageTry_def Let_def)

lemma fmh_response_throws:
  "findUser users (uuidOf buffer) = Some u \<Longrightarrow> parseAddress buffer = Some (address, n) \<Longrightarrow>
   \<not> send_ok plat [0, 0] \<Longrightarrow>
   firstMessageHandler users plat s (Binary buffer)
     = ([connectionLine (uuidOf buffer) address (portOf buffer) (at buffer 17 = Some 2),
         ConsoleError (js ''VLESS protocol error:''), Close 1011 (js ''Protocol error'')],
        s\<lparr>userId := Some (uuidOf buffer), targetHost := Some address,
          targetPort := Some (portOf buffer), isUDP := (at buffer 17 = Some 2),
          chanOpen := False\<rparr>)"
  by (simp add: firstMessageHandler_def firstMessageTry_def Let_def)

lemma fmh_tcp:
  "findUser users (uuidOf buffer) = Some u \<Longrightarrow> parseAddress buffer = Some (address, n) \<Longrightarrow>
   send_ok plat [0, 0] \<Longrightarrow> at buffer 17 \<noteq> Some 2 \<Longrightarrow>
   firstMessageHandler users plat s (Binary buffer)
     = ([connectionLine (uuidOf buffer) address (portOf buffer) False, Send [0, 0]],
        s\<lparr>userId := Some (uuidOf buffer), targetHost := Some address,
          targetPort := Some (portOf buffer), isUDP := False,
          listener := MessageHandler address (portOf buffer)\<rparr>)"
  by (simp add: firstMessageHandler_def firstMessageTry_def Let_def)

lemma fmh_udp:
  "findUser users (uuidOf buffer) = Some u \<Longrightarrow> parseAddress buffer = Some (address, n) \<Longrightarrow>
   send_ok plat [0, 0] \<Longrightarrow> at buffer 17 = Some 2 \<Longrightarrow>
   send_ok plat (udpResponse address (portOf buffer)) \<Longrightarrow>
   firstMessageHandler users plat s (Binary buffer)
     = ([connectionLine (uuidOf buffer) address (portOf buffer) True, Send [0, 0],
         Send (udpResponse address (portOf buffer))],
        s\<lparr>userId := Some (uuidOf buffer), targetHost := Some address,
          targetPort := Some (portOf buffer), isUDP := True\<rparr>)"
  by (simp add: firstMessageHandler_def firstMessageTry_def handleUDP_def Let_def)

lemma fmh_udp_throws:
  "findUser users (uuidOf buffer) = Some u \<Longrightarrow> parseAddress buffer = Some (address, n) \<Longrightarrow>
   send_ok plat [0, 0] \<Longrightarrow> at buffer 17 = Some 2 \<Longrightarrow>
   \<not> send_ok plat (udpResponse address (portOf buffer)) \<Longrightarrow>
   firstMessageHandler users plat s (Binary buffer)
     = ([connectionLine (uuidOf buffer) address (portOf buffer) True, Send [0, 0],
         ConsoleError (js ''VLESS protocol error:''), Close 1011 (js ''Protocol error'')],
        s\<lparr>userId := Some (uuidOf buffer), targetHost := Some address,
          targetPort := Some (portOf buffer), isUDP := True, chanOpen := False\<rparr>)"
  by (simp add: firstMessageHandler_def firstMessageTry_def handleUDP_def Let_def)

lemma dispatch_initial:
  "dispatch users plat initial (Message data)
     = firstMessageHandler users plat (initial\<lparr>listener := NoHandler\<rparr>) data"
  by (simp add: dispatch_def initial_def)

lemma dispatch_closed:
  "\<not> chanOpen s \<Longrightarrow>
   (\<forall>e\<in>set (fst (dispatch users plat s ev)). isConsole e)
   \<and> \<not> chanOpen (snd (dispatch users plat s ev))
   \<and> userId (snd (dispatch users plat s ev)) = userId s
   \<and> listener (snd (dispatch users plat s ev)) = listener s"
  by (cases ev) (simp_all add: dispatch_def)

lemma run_closed:
  "\<not> chanOpen s \<Longrightarrow>
   (\<forall>e\<in>set (fst (run users plat s evs)). isConsole e)
   \<and> \<not> chanOpen (snd (run users plat s evs))
   \<and> userId (snd (run users plat s evs)) = userId s
   \<and> listener (snd (run users plat s evs)) = listener s"
proof (induction evs arbitrary: s)
  case Nil
  then show ?case by simp
next
  case (Cons ev evs)
  note d = dispatch_closed [OF Cons.prems, of users plat ev]
  from d have "\<not> chanOpen (snd (dispatch users plat s ev))" by simp
  from Cons.IH [OF this] d show ?case
    unfolding snd_run_Cons fst_run_Cons by auto
qed


lemma fmh_authenticated:
  assumes "findUser users (uuidOf buffer) = Some u"
  shows "userId (snd (firstMessageHandler users plat s (Binary buffer))) = Some (uuidOf buffer)
         \<and> Close 1008 (js ''Invalid user'') \<notin> set (fst (firstMessageHandler users plat s (Binary buffer)))"
proof (cases "parseAddress buffer")
  case None
  from fmh_invalid_address [OF assms None] show ?thesis
    by (simp add: js_def)
next
  case (Some r)
  obtain address n where r: "parseAddress buffer = Some (address, n)"
    using Some by (cases r) simp
  note t = fmh_response_throws [OF assms r] fmh_tcp [OF assms r] fmh_udp [OF assms r]
    fmh_udp_throws [OF assms r]
  show ?thesis
  proof (cases "send_ok plat [0, 0]")
    case False
    with t(1) show ?thesis by (simp add: connectionLine_def)
  next
    case ok: True
    show ?thesis
    proof (cases "at buffer 17 = Some 2")
      case False
      with t(2) ok show ?thesis by (simp add: connectionLine_def)
    next
      case True
      with t(3,4) ok show ?thesis
        by (cases "send_ok plat (udpResponse address (portOf buffer))")
           (simp_all add: connectionLine_def)
    qed
  qed
qed

text \<open>
  C4. With well-formed UUID strings configured, the comparison of line 149 is an exact
  match on the sixteen identifier bytes: a first message that starts with the bytes of
  a configured user sets \<^verbatim>\<open>userId\<close> and is not closed as an invalid user; one that
  starts with any other sixteen bytes is answered by the log line and
  \<^verbatim>\<open>close(1008, 'Invalid user')\<close> only, and whatever events follow, nothing is ever
  sent on the socket, no request is ever fetched and \<^verbatim>\<open>userId\<close> stays unset.
\<close>

theorem C4_exact_identifier:
  assumes "\<forall>u\<in>set users. validateUUID (uuid u)" and "length ident = 16"
  shows "(ident \<in> identifierOf ` uuid ` set users \<longrightarrow>
            userId (snd (dispatch users plat initial (Message (Binary (ident @ rest)))))
              = Some (formatUUID (arrayBufferToHexString ident))
            \<and> Close 1008 (js ''Invalid user'')
                \<notin> set (fst (dispatch users plat initial (Message (Binary (ident @ rest))))))
       \<and> (ident \<notin> identifierOf ` uuid ` set users \<longrightarrow>
            fst (dispatch users plat initial (Message (Binary (ident @ rest))))
              = [ConsoleLog (js ''Invalid UUID: '' @ formatUUID (arrayBufferToHexString ident)),
                 Close 1008 (js ''Invalid user'')]
            \<and> (\<forall>e\<in>set (fst (run users plat initial (Message (Binary (ident @ rest)) # evs))).
                  \<not> isSend e \<and> \<not> isFetch e)
            \<and> userId (snd (run users plat initial (Message (Binary (ident @ rest)) # evs)))
                = None)"
proof (intro conjI impI)
  assume "ident \<in> identifierOf ` uuid ` set users"
  then obtain u where u: "findUser users (uuidOf (ident @ rest)) = Some u"
    using findUser_iff [OF assms, of rest] by auto
  from fmh_authenticated [OF u]
  show "userId (snd (dispatch users plat initial (Message (Binary (ident @ rest)))))
          = Some (formatUUID (arrayBufferToHexString ident))"
    and "Close 1008 (js ''Invalid user'')
          \<notin> set (fst (dispatch users plat initial (Message (Binary (ident @ rest)))))"
    using assms(2) by (simp_all add: dispatch_initial uuidOf_append)
next
  assume "ident \<notin> identifierOf ` uuid ` set users"
  then have n: "findUser users (uuidOf (ident @ rest)) = None"
    using findUser_iff [OF assms, of rest] by simp
  let ?d = "dispatch users plat initial (Message (Binary (ident @ rest)))"
  have d: "?d = ([ConsoleLog (js ''Invalid UUID: '' @ formatUUID (arrayBufferToHexString ident)),
                  Close 1008 (js ''Invalid user'')],
                 initial\<lparr>listener := NoHandler, chanOpen := False\<rparr>)"
    using fmh_invalid_user [OF n] assms(2) by (simp add: dispatch_initial uuidOf_append)
  then show "fst ?d = [ConsoleLog (js ''Invalid UUID: '' @ formatUUID (arrayBufferToHexString ident)),
                 Close 1008 (js ''Invalid user'')]"
    by simp
  have c: "\<not> chanOpen (snd ?d)" by (simp add: d)
  note r = run_closed [OF c, of users plat evs]
  have "\<And>e. isConsole e \<Longrightarrow> \<not> isSend e \<and> \<not> isFetch e"
    by (case_tac e) simp_all
  with r show "\<forall>e\<in>set (fst (run users plat initial (Message (Binary (ident @ rest)) # evs))).
                  \<not> isSend e \<and> \<not> isFetch e"
    unfolding fst_run_Cons by (auto simp: d)
  have "userId (snd ?d) = None" unfolding d by (simp add: initial_def)
  with r show "userId (snd (run users plat initial (Message (Binary (ident @ rest)) # evs))) = None"
    unfolding snd_run_Cons by simp
qed

lemma VLESS_USERS_valid: "\<forall>u\<in>set VLESS_USERS. validateUUID (uuid u)"
  by (simp add: VLESS_USERS_def validateUUID_def substr_def js_def isHexChar_def)

theorem C4_exact_identifier_witness:
  "list_all (\<lambda>u. validateUUID (uuid u)) VLESS_USERS \<and> length user1 = 16
   \<and> user1 \<in> identifierOf ` uuid ` set VLESS_USERS
   \<and> userId (snd (dispatch VLESS_USERS offlinePlatform initial (Message (Binary (user1 @ [])))))
       = Some (js ''62a9adef-40b2-477a-861f-ce1e8604bc34'')
   \<and> length (0x63 # tl user1) = 16
   \<and> 0x63 # tl user1 \<notin> identifierOf ` uuid ` set VLESS_USERS
   \<and> fst (dispatch VLESS_USERS offlinePlatform initial (Message (Binary ((0x63 # tl user1) @ []))))
       = [ConsoleLog (js ''Invalid UUID: 63a9adef-40b2-477a-861f-ce1e8604bc34''),
          Close 1008 (js ''Invalid user'')]"
proof -
  have v: "\<forall>u\<in>set VLESS_USERS. validateUUID (uuid u)"
    by (rule VLESS_USERS_valid)
  have l: "length user1 = 16" "length (0x63 # tl user1) = 16"
    by (simp_all add: user1_def)
  have i: "identifierOf ` uuid ` set VLESS_USERS = {user1}"
    by (simp add: VLESS_USERS_def identifierOf_def js_def hexValue_def user1_def)
  have m: "user1 \<in> identifierOf ` uuid ` set VLESS_USERS"
    "0x63 # tl user1 \<notin> identifierOf ` uuid ` set VLESS_USERS"
    unfolding i by (simp_all add: user1_def)
  have f: "formatUUID (arrayBufferToHexString user1) = js ''62a9adef-40b2-477a-861f-ce1e8604bc34''"
    "formatUUID (arrayBufferToHexString (0x63 # tl user1)) = js ''63a9adef-40b2-477a-861f-ce1e8604bc34''"
    by (simp_all add: formatUUID_def arrayBufferToHexString_def byteHex_def hexDigit_def
          substr_def js_def user1_def)
  from C4_exact_identifier [OF v l(1), of offlinePlatform "[]" "[]"]
       C4_exact_identifier [OF v l(2), of offlinePlatform "[]" "[]"] v l m f
  show ?thesis by (simp add: js_def list_all_iff)
qed

subsection \<open>The first-message handler never lets an exception escape\<close>

lemma at_past_end: "length xs \<le> i \<Longrightarrow> at xs i = None"
  by (simp add: at_def)

lemma threw_iff:
  "snd (snd (firstMessageTry users plat s (Binary buffer)))
   \<longleftrightarrow> (\<exists>u address n. findUser users (uuidOf buffer) = Some u
          \<and> parseAddress buffer = Some (address, n)
          \<and> (\<not> send_ok plat [0, 0]
               \<or> at buffer 17 = Some 2 \<and> \<not> send_ok plat (udpResponse address (portOf buffer))))"
  by (auto simp: firstMessageTry_def Let_def handleUDP_def split: option.splits)

lemma threw_closes:
  assumes "snd (snd (firstMessageTry users plat s data))"
  shows "(\<exists>es. fst (firstMessageHandler users plat s data)
               = es @ [ConsoleError (js ''VLESS protocol error:''),
                       Close 1011 (js ''Protocol error'')])
         \<and> \<not> chanOpen (snd (firstMessageHandler users plat s data))"
  using assms
  by (cases "firstMessageTry users plat s data") (auto simp: firstMessageHandler_def)

text \<open>
  C10. For a binary first message of any length: an element read past the end of the
  buffer is \<^verbatim>\<open>undefined\<close>; when no configured user matches the UUID string of the first
  sixteen bytes the handler logs and calls \<^verbatim>\<open>close(1008, 'Invalid user')\<close>, and that is
  all; the \<^verbatim>\<open>try\<close> block throws exactly when a user matched, the address type was
  accepted and a \<^verbatim>\<open>websocket.send\<close> threw; and whenever it throws, the handler ends with
  \<^verbatim>\<open>close(1011, 'Protocol error')\<close> and the socket closed. The handler is a total
  function: it returns effects and a state for every message.
\<close>

theorem C10_handler_total:
  "(\<forall>i\<ge>length buffer. at buffer i = None)
   \<and> (findUser users (uuidOf buffer) = None \<longrightarrow>
        firstMessageHandler users plat s (Binary buffer)
          = ([ConsoleLog (js ''Invalid UUID: '' @ uuidOf buffer), Close 1008 (js ''Invalid user'')],
             s\<lparr>chanOpen := False\<rparr>))
   \<and> (snd (snd (firstMessageTry users plat s (Binary buffer)))
        \<longleftrightarrow> (\<exists>u address n. findUser users (uuidOf buffer) = Some u
               \<and> parseAddress buffer = Some (address, n)
               \<and> (\<not> send_ok plat [0, 0]
                    \<or> at buffer 17 = Some 2
                       \<and> \<not> send_ok plat (udpResponse address (portOf buffer)))))
   \<and> (snd (snd (firstMessageTry users plat s (Binary buffer))) \<longrightarrow>
        (\<exists>es. fst (firstMessageHandler users plat s (Binary buffer))
               = es @ [ConsoleError (js ''VLESS protocol error:''),
                       Close 1011 (js ''Protocol error'')])
        \<and> \<not> chanOpen (snd (firstMessageHandler users plat s (Binary buffer))))"
  using threw_iff [of users plat s buffer] threw_closes [of users plat s "Binary buffer"]
    fmh_invalid_user [of users buffer plat s]
  by (simp add: at_past_end)

lemma findUser_user1: "findUser VLESS_USERS (uuidOf (user1 @ rest)) = Some (hd VLESS_USERS)"
  by (simp add: findUser_def uuidOf_def slice_def VLESS_USERS_def user1_def toLowerCase_def
        formatUUID_def arrayBufferToHexString_def byteHex_def hexDigit_def substr_def js_def)

lemma uuidOf_user1: "uuidOf (user1 @ rest) = js ''62a9adef-40b2-477a-861f-ce1e8604bc34''"
  by (simp add: uuidOf_def slice_def user1_def
        formatUUID_def arrayBufferToHexString_def byteHex_def hexDigit_def substr_def js_def)

lemma findUser_empty: "findUser VLESS_USERS (uuidOf []) = None"
  by (simp add: findUser_def uuidOf_def slice_def VLESS_USERS_def toLowerCase_def
        formatUUID_def arrayBufferToHexString_def substr_def js_def)

theorem C10_handler_total_witness:
  "findUser VLESS_USERS (uuidOf []) = None
   \<and> firstMessageHandler VLESS_USERS offlinePlatform initial (Binary [])
       = ([ConsoleLog (js ''Invalid UUID: ----''), Close 1008 (js ''Invalid user'')],
          initial\<lparr>chanOpen := False\<rparr>)
   \<and> snd (snd (firstMessageTry VLESS_USERS deafPlatform initial (Binary helloTcp)))
   \<and> (\<exists>es. fst (firstMessageHandler VLESS_USERS deafPlatform initial (Binary helloTcp))
              = es @ [ConsoleError (js ''VLESS protocol error:''),
                      Close 1011 (js ''Protocol error'')])
   \<and> \<not> chanOpen (snd (firstMessageHandler VLESS_USERS deafPlatform initial (Binary helloTcp)))"
proof -
  have u: "uuidOf [] = js ''----''"
    by (simp add: uuidOf_def slice_def formatUUID_def arrayBufferToHexString_def substr_def js_def)
  have p: "parseAddress helloTcp \<noteq> None"
    by (simp add: parseAddress_def helloTcp_def user1_def at_def)
  have t: "snd (snd (firstMessageTry VLESS_USERS deafPlatform initial (Binary helloTcp)))"
    using C10_handler_total [of helloTcp VLESS_USERS deafPlatform initial] p
      findUser_user1 [of "[0, 1, 0x1f, 0x90, 1, 1, 2, 3, 4]"]
    by (auto simp: helloTcp_def deafPlatform_def)
  from C10_handler_total [of "[]" VLESS_USERS offlinePlatform initial]
    C10_handler_total [of helloTcp VLESS_USERS deafPlatform initial] t findUser_empty u
  show ?thesis by (simp add: js_def)
qed

subsection \<open>Short first messages\<close>

lemma parseAddress_short: "length buffer < 21 \<Longrightarrow> parseAddress buffer = None"
  by (simp add: parseAddress_def at_def)

lemma length_substr: "length (substr s n k) = min k (length s - n)"
  by (simp add: substr_def)

lemma length_uuidOf_short: "length buffer < 16 \<Longrightarrow> length (uuidOf buffer) < 36"
  by (simp add: uuidOf_def Let_def slice_def formatUUID_def length_substr length_hex js_def)

lemma length_toLowerCase: "length (toLowerCase s) = length s"
  by (simp add: toLowerCase_def)

lemma findUser_short:
  assumes "\<forall>u\<in>set users. validateUUID (uuid u)" "length buffer < 16"
  shows "findUser users (uuidOf buffer) = None"
proof -
  have "toLowerCase (uuid u) \<noteq> toLowerCase (uuidOf buffer)" if "u \<in> set users" for u
  proof
    assume "toLowerCase (uuid u) = toLowerCase (uuidOf buffer)"
    then have "length (uuid u) = length (uuidOf buffer)"
      using length_toLowerCase by metis
    moreover have "length (uuid u) = 36"
      using assms(1) that by (simp add: validateUUID_def)
    ultimately show False
      using length_uuidOf_short [OF assms(2)] by simp
  qed
  then show ?thesis
    by (simp add: findUser_def find_None_iff)
qed

text \<open>
  C6, the claim as stated fails: the sixteen identifier bytes of the configured user
  alone, a buffer shorter than 18 bytes, are authenticated (\<^verbatim>\<open>userId\<close> is set) and the
  handler goes on to the address type switch, whose \<^verbatim>\<open>default\<close> branch closes the socket.
\<close>

theorem C6_short_buffer_counterexample:
  "length user1 < 18
   \<and> dispatch VLESS_USERS offlinePlatform initial (Message (Binary user1))
       = ([Close 1008 (js ''Invalid address type'')],
          initial\<lparr>userId := Some (js ''62a9adef-40b2-477a-861f-ce1e8604bc34''),
                  listener := NoHandler, chanOpen := False\<rparr>)"
  using fmh_invalid_address [OF findUser_user1 [of "[]"], of offlinePlatform
          "initial\<lparr>listener := NoHandler\<rparr>"]
    parseAddress_short [of user1] uuidOf_user1 [of "[]"]
  by (simp add: dispatch_initial) (simp add: user1_def initial_def)

text \<open>
  C6, amended. For every first-message buffer shorter than 18 bytes the command and
  the address type are read as \<^verbatim>\<open>undefined\<close>, so the handler closes the socket with code 1008: as an invalid user
  when no configured user matches (always so below 16 bytes, with well-formed UUID
  strings configured), else, already authenticated, as an invalid address type. No
  listener is left, and whatever events follow, nothing is ever sent or fetched.
\<close>

theorem C6_short_buffer:
  assumes "length buffer < 18"
  shows "at buffer 17 = None \<and> at buffer 20 = None \<and> parseAddress buffer = None
   \<and> dispatch users plat initial (Message (Binary buffer))
       = (if findUser users (uuidOf buffer) = None
          then ([ConsoleLog (js ''Invalid UUID: '' @ uuidOf buffer),
                 Close 1008 (js ''Invalid user'')],
                initial\<lparr>listener := NoHandler, chanOpen := False\<rparr>)
          else ([Close 1008 (js ''Invalid address type'')],
                initial\<lparr>listener := NoHandler, userId := Some (uuidOf buffer),
                        chanOpen := False\<rparr>))
   \<and> (\<forall>e\<in>set (fst (run users plat initial (Message (Binary buffer) # evs))).
         \<not> isSend e \<and> \<not> isFetch e)
   \<and> listener (snd (run users plat initial (Message (Binary buffer) # evs))) = NoHandler
   \<and> ((\<forall>u\<in>set users. validateUUID (uuid u)) \<and> length buffer < 16 \<longrightarrow>
        findUser users (uuidOf buffer) = None)"
proof -
  let ?d = "dispatch users plat initial (Message (Binary buffer))"
  have p: "parseAddress buffer = None"
    using assms by (simp add: parseAddress_short)
  have d: "?d = (if findUser users (uuidOf buffer) = None
          then ([ConsoleLog (js ''Invalid UUID: '' @ uuidOf buffer),
                 Close 1008 (js ''Invalid user'')],
                initial\<lparr>listener := NoHandler, chanOpen := False\<rparr>)
          else ([Close 1008 (js ''Invalid address type'')],
                initial\<lparr>listener := NoHandler, userId := Some (uuidOf buffer),
                        chanOpen := False\<rparr>))"
  proof (cases "findUser users (uuidOf buffer)")
    case None
    then show ?thesis by (simp add: dispatch_initial fmh_invalid_user)
  next
    case (Some u)
    from fmh_invalid_address [OF Some p] show ?thesis
      by (simp add: dispatch_initial Some)
  qed
  have c: "\<not> chanOpen (snd ?d)" and l: "listener (snd ?d) = NoHandler"
    and e: "\<forall>e\<in>set (fst ?d). \<not> isSend e \<and> \<not> isFetch e"
    unfolding d by simp_all
  note r = run_closed [OF c, of users plat evs]
  have k: "\<And>e. isConsole e \<Longrightarrow> \<not> isSend e \<and> \<not> isFetch e"
    by (case_tac e) simp_all
  have "\<forall>e\<in>set (fst (run users plat initial (Message (Binary buffer) # evs))).
         \<not> isSend e \<and> \<not> isFetch e"
    unfolding fst_run_Cons using e r k by auto
  moreover have "listener (snd (run users plat initial (Message (Binary buffer) # evs))) = NoHandler"
    unfolding snd_run_Cons using r l by simp
  moreover have "at buffer 17 = None" "at buffer 20 = None"
    using assms by (simp_all add: at_def)
  ultimately show ?thesis
    using p d findUser_short [of users buffer] by blast
qed

theorem C6_short_buffer_witness:
  "length user1 < 18
   \<and> parseAddress user1 = None
   \<and> fst (dispatch VLESS_USERS offlinePlatform initial (Message (Binary user1)))
       = [Close 1008 (js ''Invalid address type'')]
   \<and> listener (snd (run VLESS_USERS offlinePlatform initial
                     [Message (Binary user1), Message (Binary user1)])) = NoHandler
   \<and> list_all (\<lambda>u. validateUUID (uuid u)) VLESS_USERS \<and> length (take 15 user1) < 16
   \<and> findUser VLESS_USERS (uuidOf (take 15 user1)) = None"
proof -
  have l: "length user1 < 18" "length (take 15 user1) < 18" "length (take 15 user1) < 16"
    by (simp_all add: user1_def)
  note a = C6_short_buffer [OF l(1), of VLESS_USERS offlinePlatform "[Message (Binary user1)]"]
  note b = C6_short_buffer [OF l(2), of VLESS_USERS offlinePlatform "[]"]
  have 1: "parseAddress user1 = None"
    using a by blast
  have "dispatch VLESS_USERS offlinePlatform initial (Message (Binary user1))
       = ([Close 1008 (js ''Invalid address type'')],
          initial\<lparr>listener := NoHandler, userId := Some (uuidOf user1), chanOpen := False\<rparr>)"
    using a findUser_user1 [of "[]"] by simp
  then have 2: "fst (dispatch VLESS_USERS offlinePlatform initial (Message (Binary user1)))
       = [Close 1008 (js ''Invalid address type'')]"
    by simp
  have 3: "listener (snd (run VLESS_USERS offlinePlatform initial
                     [Message (Binary user1), Message (Binary user1)])) = NoHandler"
    using a by blast
  have 4: "findUser VLESS_USERS (uuidOf (take 15 user1)) = None"
    using b VLESS_USERS_valid l(3) by blast
  have 5: "list_all (\<lambda>u. validateUUID (uuid u)) VLESS_USERS"
    using VLESS_USERS_valid by (simp add: list_all_iff)
  from 1 2 3 4 5 l show ?thesis
    by blast
qed

subsection \<open>Independence from the byte at offset 17\<close>

lemma slice_update_before: "j < b \<Longrightarrow> slice (xs[j := x]) b e = slice xs b e"
  by (simp add: slice_def)

lemma slice_update_after: "e \<le> j \<Longrightarrow> slice (xs[j := x]) b e = slice xs b e"
  by (cases "j < b") (simp_all add: slice_def drop_update_swap)

lemma uuidOf_update: "16 \<le> j \<Longrightarrow> uuidOf (xs[j := x]) = uuidOf xs"
  by (simp add: uuidOf_def slice_update_after)

lemma portOf_update: "portOf (xs[17 := x]) = portOf xs"
  by (simp add: portOf_def at_def)

lemma parseAddress_update: "parseAddress (xs[17 := x]) = parseAddress xs"
  by (simp add: parseAddress_def at_def slice_update_before Let_def cong: if_cong)

lemma at_update_same: "at xs j = Some c \<Longrightarrow> at (xs[j := x]) j = Some x"
  by (simp add: at_def split: if_splits)

lemma firstMessageTry_command:
  assumes "at buffer 17 = Some c" "c \<noteq> 2" "c' \<noteq> 2"
  shows "firstMessageTry users plat s (Binary (buffer[17 := c']))
         = firstMessageTry users plat s (Binary buffer)"
  using assms at_update_same [OF assms(1), of c']
  by (simp add: firstMessageTry_def Let_def uuidOf_update portOf_update parseAddress_update
        cong: option.case_cong if_cong)

subsection \<open>The command byte\<close>

text \<open>
  C8, the claim as stated fails: a first message of the configured user with command
  byte 3 is answered with the success response, and the relay handler of \<^verbatim>\<open>proxyTCP\<close>
  is registered.
\<close>

theorem C8_command_counterexample:
  "at helloCommand3 17 = Some 3
   \<and> dispatch VLESS_USERS offlinePlatform initial (Message (Binary helloCommand3))
       = ([ConsoleLog (js ''VLESS Connection: 62a9adef-40b2-477a-861f-ce1e8604bc34 -> 1.2.3.4:80 TCP''),
           Send [0, 0]],
          initial\<lparr>userId := Some (js ''62a9adef-40b2-477a-861f-ce1e8604bc34''),
                  targetHost := Some (js ''1.2.3.4''), targetPort := Some 80,
                  listener := MessageHandler (js ''1.2.3.4'') 80\<rparr>)"
proof -
  have a: "at helloCommand3 17 = Some 3"
    by (simp add: helloCommand3_def user1_def at_def)
  have p: "parseAddress helloCommand3 = Some (js ''1.2.3.4'', Some 4)"
    by (simp add: parseAddress_def helloCommand3_def user1_def at_def showByte_def
          decimal.simps js_def)
  have q: "portOf helloCommand3 = 80"
    by (simp add: portOf_def helloCommand3_def user1_def at_def toInt_def)
  have u: "findUser VLESS_USERS (uuidOf helloCommand3) = Some (hd VLESS_USERS)"
    "uuidOf helloCommand3 = js ''62a9adef-40b2-477a-861f-ce1e8604bc34''"
    unfolding helloCommand3_def by (rule findUser_user1 uuidOf_user1)+
  have o: "send_ok offlinePlatform [0, 0]"
    by (simp add: offlinePlatform_def)
  have c: "at helloCommand3 17 \<noteq> Some 2"
    by (simp add: a)
  have "connectionLine (js ''62a9adef-40b2-477a-861f-ce1e8604bc34'') (js ''1.2.3.4'') 80 False
        = ConsoleLog (js ''VLESS Connection: 62a9adef-40b2-477a-861f-ce1e8604bc34 -> 1.2.3.4:80 TCP'')"
    by (simp add: connectionLine_def decimal.simps js_def)
  with fmh_tcp [OF u(1) p o c, of "initial\<lparr>listener := NoHandler\<rparr>"]
  have "firstMessageHandler VLESS_USERS offlinePlatform (initial\<lparr>listener := NoHandler\<rparr>)
          (Binary helloCommand3)
       = ([ConsoleLog (js ''VLESS Connection: 62a9adef-40b2-477a-861f-ce1e8604bc34 -> 1.2.3.4:80 TCP''),
           Send [0, 0]],
          initial\<lparr>userId := Some (js ''62a9adef-40b2-477a-861f-ce1e8604bc34''),
                  targetHost := Some (js ''1.2.3.4''), targetPort := Some 80,
                  listener := MessageHandler (js ''1.2.3.4'') 80\<rparr>)"
    by (simp add: u(2) q initial_def)
  with a show ?thesis
    unfolding dispatch_initial by simp
qed

text \<open>
  C8, amended. The command byte is only compared with 2. A first message whose command
  byte is not 2, be it 1 or any other value, is handled as TCP: when a configured user
  matches, the address type is accepted and the send returns, the success response is
  sent and the relay handler of \<^verbatim>\<open>proxyTCP\<close> is registered. Replacing the command byte
  by any other value different from 2 changes nothing in what the handler does.
\<close>

theorem C8_command:
  assumes "at buffer 17 = Some c" and "c \<noteq> 2"
  shows "(c' \<noteq> 2 \<longrightarrow>
            dispatch users plat initial (Message (Binary (buffer[17 := c'])))
              = dispatch users plat initial (Message (Binary buffer)))
       \<and> (findUser users (uuidOf buffer) = Some u \<and> parseAddress buffer = Some (address, n)
            \<and> send_ok plat [0, 0] \<longrightarrow>
            dispatch users plat initial (Message (Binary buffer))
              = ([connectionLine (uuidOf buffer) address (portOf buffer) False, Send [0, 0]],
                 initial\<lparr>userId := Some (uuidOf buffer), targetHost := Some address,
                         targetPort := Some (portOf buffer),
                         listener := MessageHandler address (portOf buffer)\<rparr>))"
proof (intro conjI impI)
  assume "c' \<noteq> 2"
  from firstMessageTry_command [OF assms this]
  show "dispatch users plat initial (Message (Binary (buffer[17 := c'])))
          = dispatch users plat initial (Message (Binary buffer))"
    by (simp add: dispatch_initial firstMessageHandler_def)
next
  assume a: "findUser users (uuidOf buffer) = Some u \<and> parseAddress buffer = Some (address, n)
            \<and> send_ok plat [0, 0]"
  have "at buffer 17 \<noteq> Some 2"
    using assms by simp
  with a fmh_tcp [of users buffer u address n plat "initial\<lparr>listener := NoHandler\<rparr>"]
  have "firstMessageHandler users plat (initial\<lparr>listener := NoHandler\<rparr>) (Binary buffer)
              = ([connectionLine (uuidOf buffer) address (portOf buffer) False, Send [0, 0]],
                 initial\<lparr>userId := Some (uuidOf buffer), targetHost := Some address,
                         targetPort := Some (portOf buffer),
                         listener := MessageHandler address (portOf buffer)\<rparr>)"
    by (simp add: initial_def)
  then show "dispatch users plat initial (Message (Binary buffer))
              = ([connectionLine (uuidOf buffer) address (portOf buffer) False, Send [0, 0]],
                 initial\<lparr>userId := Some (uuidOf buffer), targetHost := Some address,
                         targetPort := Some (portOf buffer),
                         listener := MessageHandler address (portOf buffer)\<rparr>)"
    unfolding dispatch_initial .
qed

theorem C8_command_witness:
  "at helloCommand3 17 = Some 3 \<and> (3 :: byte) \<noteq> 2 \<and> (1 :: byte) \<noteq> 2
   \<and> helloCommand3[17 := 1] = helloHttp
   \<and> dispatch VLESS_USERS offlinePlatform initial (Message (Binary helloHttp))
       = dispatch VLESS_USERS offlinePlatform initial (Message (Binary helloCommand3))
   \<and> findUser VLESS_USERS (uuidOf helloCommand3) = Some (hd VLESS_USERS)
   \<and> parseAddress helloCommand3 = Some (js ''1.2.3.4'', Some 4)
   \<and> send_ok offlinePlatform [0, 0]
   \<and> fst (dispatch VLESS_USERS offlinePlatform initial (Message (Binary helloCommand3)))
       = [connectionLine (uuidOf helloCommand3) (js ''1.2.3.4'') (portOf helloCommand3) False,
          Send [0, 0]]"
proof -
  have a: "at helloCommand3 17 = Some 3"
    by (simp add: helloCommand3_def user1_def at_def)
  have b: "(3 :: byte) \<noteq> 2" "(1 :: byte) \<noteq> 2"
    by simp_all
  have h: "helloCommand3[17 := 1] = helloHttp"
    by (simp add: helloCommand3_def helloHttp_def user1_def)
  have p: "parseAddress helloCommand3 = Some (js ''1.2.3.4'', Some 4)"
    by (simp add: parseAddress_def helloCommand3_def user1_def at_def showByte_def
          decimal.simps js_def)
  have u: "findUser VLESS_USERS (uuidOf helloCommand3) = Some (hd VLESS_USERS)"
    unfolding helloCommand3_def by (rule findUser_user1)
  have o: "send_ok offlinePlatform [0, 0]"
    by (simp add: offlinePlatform_def)
  note t = C8_command [OF a b(1), of 1 VLESS_USERS offlinePlatform "hd VLESS_USERS"
             "js ''1.2.3.4''" "Some 4"]
  have 1: "dispatch VLESS_USERS offlinePlatform initial (Message (Binary helloHttp))
       = dispatch VLESS_USERS offlinePlatform initial (Message (Binary helloCommand3))"
    using t b(2) h by simp
  have 2: "fst (dispatch VLESS_USERS offlinePlatform initial (Message (Binary helloCommand3)))
       = [connectionLine (uuidOf helloCommand3) (js ''1.2.3.4'') (portOf helloCommand3) False,
          Send [0, 0]]"
    using t u p o by simp
  from a b h 1 2 u p o show ?thesis
    by blast
qed

subsection \<open>The success response\<close>

lemma udpResponse_not_response: "udpResponse host port \<noteq> [0, 0]"
proof
  assume "udpResponse host port = [0, 0]"
  then have "hd (udpResponse host port) = 0"
    by simp
  moreover have "hd (udpResponse host port) = 85"
    by (simp add: udpResponse_def TextEncoder_encode_def js_def)
  ultimately show False
    by simp
qed

text \<open>Every outcome of the first-message handler on a binary message.\<close>

lemma fmh_cases:
  obtains
    (invalid_user) "findUser users (uuidOf buffer) = None"
      "firstMessageHandler users plat s (Binary buffer)
         = ([ConsoleLog (js ''Invalid UUID: '' @ uuidOf buffer), Close 1008 (js ''Invalid user'')],
            s\<lparr>chanOpen := False\<rparr>)"
  | (invalid_address) u where "findUser users (uuidOf buffer) = Some u"
      "parseAddress buffer = None"
      "firstMessageHandler users plat s (Binary buffer)
         = ([Close 1008 (js ''Invalid address type'')],
            s\<lparr>userId := Some (uuidOf buffer), chanOpen := False\<rparr>)"
  | (response_throws) u address n where "findUser users (uuidOf buffer) = Some u"
      "parseAddress buffer = Some (address, n)" "\<not> send_ok plat [0, 0]"
      "firstMessageHandler users plat s (Binary buffer)
         = ([connectionLine (uuidOf buffer) address (portOf buffer) (at buffer 17 = Some 2),
             ConsoleError (js ''VLESS protocol error:''), Close 1011 (js ''Protocol error'')],
            s\<lparr>userId := Some (uuidOf buffer), targetHost := Some address,
              targetPort := Some (portOf buffer), isUDP := (at buffer 17 = Some 2),
              chanOpen := False\<rparr>)"
  | (tcp) u address n where "findUser users (uuidOf buffer) = Some u"
      "parseAddress buffer = Some (address, n)" "send_ok plat [0, 0]" "at buffer 17 \<noteq> Some 2"
      "firstMessageHandler users plat s (Binary buffer)
         = ([connectionLine (uuidOf buffer) address (portOf buffer) False, Send [0, 0]],
            s\<lparr>userId := Some (uuidOf buffer), targetHost := Some address,
              targetPort := Some (portOf buffer), isUDP := False,
              listener := MessageHandler address (portOf buffer)\<rparr>)"
  | (udp) u address n where "findUser users (uuidOf buffer) = Some u"
      "parseAddress buffer = Some (address, n)" "send_ok plat [0, 0]" "at buffer 17 = Some 2"
      "send_ok plat (udpResponse address (portOf buffer))"
      "firstMessageHandler users plat s (Binary buffer)
         = ([connectionLine (uuidOf buffer) address (portOf buffer) True, Send [0, 0],
             Send (udpResponse address (portOf buffer))],
            s\<lparr>userId := Some (uuidOf buffer), targetHost := Some address,
              targetPort := Some (portOf buffer), isUDP := True\<rparr>)"
  | (udp_throws) u address n where "findUser users (uuidOf buffer) = Some u"
      "parseAddress buffer = Some (address, n)" "send_ok plat [0, 0]" "at buffer 17 = Some 2"
      "\<not> send_ok plat (udpResponse address (portOf buffer))"
      "firstMessageHandler users plat s (Binary buffer)
         = ([connectionLine (uuidOf buffer) address (portOf buffer) True, Send [0, 0],
             ConsoleError (js ''VLESS protocol error:''), Close 1011 (js ''Protocol error'')],
            s\<lparr>userId := Some (uuidOf buffer), targetHost := Some address,
              targetPort := Some (portOf buffer), isUDP := True, chanOpen := False\<rparr>)"
proof (cases "findUser users (uuidOf buffer)")
  case None
  with fmh_invalid_user [OF None] invalid_user show ?thesis by blast
next
  case (Some u)
  show ?thesis
  proof (cases "parseAddress buffer")
    case None
    with fmh_invalid_address [OF Some None] Some invalid_address show ?thesis by blast
  next
    case p: (Some r)
    obtain address n where r: "parseAddress buffer = Some (address, n)"
      using p by (cases r) simp
    show ?thesis
    proof (cases "send_ok plat [0, 0]")
      case False
      with fmh_response_throws [OF Some r False] Some r response_throws show ?thesis by blast
    next
      case ok: True
      show ?thesis
      proof (cases "at buffer 17 = Some 2")
        case False
        with fmh_tcp [OF Some r ok False] Some r ok tcp show ?thesis by blast
      next
        case c: True
        show ?thesis
        proof (cases "send_ok plat (udpResponse address (portOf buffer))")
          case True
          with fmh_udp [OF Some r ok c True] Some r ok c udp show ?thesis by blast
        next
          case False
          with fmh_udp_throws [OF Some r ok c False] Some r ok c udp_throws show ?thesis by blast
        qed
      qed
    qed
  qed
qed

lemma fmh_response:
  "(\<forall>e\<in>set (fst (firstMessageHandler users plat s data)). \<not> isFetch e)
   \<and> count_list (fst (firstMessageHandler users plat s data)) (Send [0, 0]) \<le> 1
   \<and> (Send [0, 0] \<in> set (fst (firstMessageHandler users plat s data))
        \<longleftrightarrow> (\<exists>buffer u address n. data = Binary buffer
               \<and> findUser users (uuidOf buffer) = Some u
               \<and> parseAddress buffer = Some (address, n) \<and> send_ok plat [0, 0]))"
proof (cases data)
  case (Text t)
  then show ?thesis by (simp add: fmh_text)
next
  case (Binary buffer)
  show ?thesis
    by (cases rule: fmh_cases [of users buffer plat s])
       (simp_all add: Binary connectionLine_def udpResponse_not_response)
qed


subsection \<open>What the relay handler does, case by case\<close>

text \<open>A header named \<^verbatim>\<open>__proto__\<close> is not passed on; a later header overwrites in place.\<close>

lemma parseHeaders_proto:
  "parseHeaders [js ''__proto__: evil'', js ''Host: a.example'', js ''X: 1'', js ''Host: b.example'']
     [] = [(js ''Host'', js ''b.example''), (js ''X'', js ''1'')]"
  by code_simp

text \<open>A \<^verbatim>\<open>GET\<close> text with a blank line has the body \<^verbatim>\<open>''\<close>, so its fetch throws.\<close>

lemma fetchCall_get_body:
  "fetchCall plat (httpRequest (js ''1.2.3.4'') 80 (TextDecoder_decode getRequest)) = None"
proof -
  have "req_method (httpRequest (js ''1.2.3.4'') 80 (TextDecoder_decode getRequest)) = js ''GET''"
    "req_body (httpRequest (js ''1.2.3.4'') 80 (TextDecoder_decode getRequest)) = Some []"
    by code_simp+
  then show ?thesis
    by (simp add: fetchCall_def toLowerCase_def js_def)
qed

lemma mh_text: "messageHandler plat host port (Text t) = ([], False)"
  by (simp add: messageHandler_def)

lemma mh_echo:
  "\<not> (looksHttp host port \<and> isHttpText (TextDecoder_decode bytes)) \<Longrightarrow>
   messageHandler plat host port (Binary bytes)
     = (if send_ok plat bytes then [Send bytes] else [ConsoleError (js ''Proxy error:'')], False)"
  by (auto simp: messageHandler_def Let_def)

lemma not_connect:
  "startsWith text (js ''GET '') \<or> startsWith text (js ''POST '') \<Longrightarrow>
   \<not> startsWith text (js ''CONNECT '')"
  by (cases "text") (auto simp: startsWith_def js_def)

lemma mh_fetch:
  assumes "looksHttp host port"
    and "startsWith (TextDecoder_decode bytes) (js ''GET '')
         \<or> startsWith (TextDecoder_decode bytes) (js ''POST '')"
  shows "messageHandler plat host port (Binary bytes)
     = (Fetch (httpRequest host port (TextDecoder_decode bytes))
          # (case fetchCall plat (httpRequest host port (TextDecoder_decode bytes)) of
               Some responseBody \<Rightarrow>
                 if send_ok plat responseBody then [Send responseBody]
                 else [ConsoleError (js ''Fetch error:''),
                       if send_ok plat badGateway then Send badGateway
                       else ConsoleError (js ''Proxy error:'')]
             | None \<Rightarrow>
                 [ConsoleError (js ''Fetch error:''),
                  if send_ok plat badGateway then Send badGateway
                  else ConsoleError (js ''Proxy error:'')]),
        False)"
  using assms not_connect [OF assms(2)]
  by (auto simp: messageHandler_def fetchBlock_def isHttpText_def Let_def split: option.splits)

lemma mh_connect:
  assumes "looksHttp host port" and "startsWith (TextDecoder_decode bytes) (js ''CONNECT '')"
  shows "messageHandler plat host port (Binary bytes)
     = (if send_ok plat connectionEstablished
        then ([Send connectionEstablished, Close 1000 (js ''CONNECT not fully supported'')], True)
        else ([ConsoleError (js ''Fetch error:''),
               if send_ok plat badGateway then Send badGateway
               else ConsoleError (js ''Proxy error:'')], False))"
  using assms
  by (auto simp: messageHandler_def fetchBlock_def isHttpText_def Let_def)

lemma dispatch_relay:
  "chanOpen s \<Longrightarrow> listener s = MessageHandler host port \<Longrightarrow>
   dispatch users plat s (Message data)
     = (fst (messageHandler plat host port data),
        if snd (messageHandler plat host port data) then s\<lparr>chanOpen := False\<rparr> else s)"
  by (simp add: dispatch_def split: prod.splits)

text \<open>
  C1, the claim as stated fails. On a platform where no outbound request succeeds, the
  first message of the configured user for 1.2.3.4:80 is answered with the success
  response although nothing was opened; when the fetch for the next message fails, the
  socket is not closed: the client is sent the text of a 502 response.
\<close>

theorem C1_response_counterexample:
  "fetch_result offlinePlatform
     \<lparr>req_url = js ''http://1.2.3.4:80'', req_method = js ''GET'',
      req_headers = [(js ''Host'', js ''example.com'')], req_body = Some []\<rparr> = None
   \<and> fst (run VLESS_USERS offlinePlatform initial
            [Message (Binary helloHttp), Message (Binary getRequest)])
       = [ConsoleLog (js ''VLESS Connection: 62a9adef-40b2-477a-861f-ce1e8604bc34 -> 1.2.3.4:80 TCP''),
          Send [0, 0],
          Fetch \<lparr>req_url = js ''http://1.2.3.4:80'', req_method = js ''GET'',
                 req_headers = [(js ''Host'', js ''example.com'')], req_body = Some []\<rparr>,
          ConsoleError (js ''Fetch error:''),
          Send badGateway]
   \<and> chanOpen (snd (run VLESS_USERS offlinePlatform initial
                      [Message (Binary helloHttp), Message (Binary getRequest)]))"
  by code_simp


text \<open>
  C1, amended. On one socket the first-message handler runs at most once. It fetches
  nothing, and it sends the two bytes 0, 0 at most once: exactly when the message is
  binary, a configured user matches, the address type is accepted and the send returns;
  no outbound request comes before. In the relay of \<^verbatim>\<open>proxyTCP\<close>, when the fetch for a
  \<^verbatim>\<open>GET\<close> or \<^verbatim>\<open>POST\<close> message fails, the socket is not closed: the request is followed
  by an error line and the text of a 502 response sent to the client.
\<close>

theorem C1_response:
  "handshakes users plat initial evs \<le> 1
   \<and> (\<forall>e\<in>set (fst (firstMessageHandler users plat s data)). \<not> isFetch e)
   \<and> count_list (fst (firstMessageHandler users plat s data)) (Send [0, 0]) \<le> 1
   \<and> (Send [0, 0] \<in> set (fst (firstMessageHandler users plat s data))
        \<longleftrightarrow> (\<exists>buffer u address n. data = Binary buffer
               \<and> findUser users (uuidOf buffer) = Some u
               \<and> parseAddress buffer = Some (address, n) \<and> send_ok plat [0, 0]))
   \<and> (looksHttp host port
        \<and> (startsWith (TextDecoder_decode bytes) (js ''GET '')
             \<or> startsWith (TextDecoder_decode bytes) (js ''POST ''))
        \<and> fetchCall plat (httpRequest host port (TextDecoder_decode bytes)) = None \<longrightarrow>
        messageHandler plat host port (Binary bytes)
          = ([Fetch (httpRequest host port (TextDecoder_decode bytes)),
              ConsoleError (js ''Fetch error:''),
              if send_ok plat badGateway then Send badGateway
              else ConsoleError (js ''Proxy error:'')], False))"
proof -
  have "messageHandler plat host port (Binary bytes)
          = ([Fetch (httpRequest host port (TextDecoder_decode bytes)),
              ConsoleError (js ''Fetch error:''),
              if send_ok plat badGateway then Send badGateway
              else ConsoleError (js ''Proxy error:'')], False)"
    if "looksHttp host port"
      and "startsWith (TextDecoder_decode bytes) (js ''GET '')
             \<or> startsWith (TextDecoder_decode bytes) (js ''POST '')"
      and "fetchCall plat (httpRequest host port (TextDecoder_decode bytes)) = None"
    using mh_fetch [OF that(1,2), of plat] that(3) by simp
  with handshakes_le_1 [of users plat initial evs] fmh_response [of users plat s data]
  show ?thesis by blast
qed

theorem C1_response_witness:
  "handshakes VLESS_USERS offlinePlatform initial
     [Message (Binary helloHttp), Message (Binary getRequest)] \<le> 1
   \<and> findUser VLESS_USERS (uuidOf helloHttp) = Some (hd VLESS_USERS)
   \<and> parseAddress helloHttp = Some (js ''1.2.3.4'', Some 4)
   \<and> send_ok offlinePlatform [0, 0]
   \<and> Send [0, 0] \<in> set (fst (firstMessageHandler VLESS_USERS offlinePlatform initial
                                (Binary helloHttp)))
   \<and> list_all (\<lambda>e. \<not> isFetch e)
         (fst (firstMessageHandler VLESS_USERS offlinePlatform initial (Binary helloHttp)))
   \<and> looksHttp (js ''1.2.3.4'') 80
   \<and> startsWith (TextDecoder_decode getRequest) (js ''GET '')
   \<and> fetchCall offlinePlatform
         (httpRequest (js ''1.2.3.4'') 80 (TextDecoder_decode getRequest)) = None
   \<and> messageHandler offlinePlatform (js ''1.2.3.4'') 80 (Binary getRequest)
       = ([Fetch (httpRequest (js ''1.2.3.4'') 80 (TextDecoder_decode getRequest)),
           ConsoleError (js ''Fetch error:''), Send badGateway], False)"
proof -
  note t = C1_response [of VLESS_USERS offlinePlatform
             "[Message (Binary helloHttp), Message (Binary getRequest)]" initial
             "Binary helloHttp" "js ''1.2.3.4''" 80 getRequest]
  have u: "findUser VLESS_USERS (uuidOf helloHttp) = Some (hd VLESS_USERS)"
    unfolding helloHttp_def by (rule findUser_user1)
  have p: "parseAddress helloHttp = Some (js ''1.2.3.4'', Some 4)"
    by (simp add: parseAddress_def helloHttp_def user1_def at_def showByte_def
          decimal.simps js_def)
  have o: "send_ok offlinePlatform [0, 0]" "send_ok offlinePlatform badGateway"
    "fetchCall offlinePlatform
       (httpRequest (js ''1.2.3.4'') 80 (TextDecoder_decode getRequest)) = None"
    by (simp_all add: offlinePlatform_def fetchCall_def)
  have h: "looksHttp (js ''1.2.3.4'') 80"
    by (simp add: looksHttp_def)
  have g: "startsWith (TextDecoder_decode getRequest) (js ''GET '')"
    by code_simp
  have 1: "Send [0, 0] \<in> set (fst (firstMessageHandler VLESS_USERS offlinePlatform initial
                                (Binary helloHttp)))"
    using t u p o(1) by blast
  have 2: "messageHandler offlinePlatform (js ''1.2.3.4'') 80 (Binary getRequest)
       = ([Fetch (httpRequest (js ''1.2.3.4'') 80 (TextDecoder_decode getRequest)),
           ConsoleError (js ''Fetch error:''), Send badGateway], False)"
    using t h g o(2,3) by simp
  have 3: "list_all (\<lambda>e. \<not> isFetch e)
         (fst (firstMessageHandler VLESS_USERS offlinePlatform initial (Binary helloHttp)))"
    using t by (simp add: list_all_iff)
  from t u p o h g 1 2 3 show ?thesis
    by blast
qed

subsection \<open>UDP mode\<close>

lemma run_no_handler:
  "listener s = NoHandler \<Longrightarrow> run users plat s (map Message ms) = ([], s)"
  by (induction ms) (simp_all add: dispatch_def)

text \<open>
  C5, the claim as stated fails. After a first message with command 2 for 8.8.8.8:53,
  a message holding one length-prefixed datagram has no effect at all: the only things
  ever sent are the success response and one fixed text, both to the client.
\<close>

theorem C5_udp_counterexample:
  "fst (run VLESS_USERS offlinePlatform initial
          [Message (Binary helloUdp), Message (Binary udpDatagram)])
     = [ConsoleLog (js ''VLESS Connection: 62a9adef-40b2-477a-861f-ce1e8604bc34 -> 8.8.8.8:53 UDP''),
        Send [0, 0],
        Send (TextEncoder_encode (js ''UDP to 8.8.8.8:53 received (simulated)''))]
   \<and> dispatch VLESS_USERS offlinePlatform
         (snd (dispatch VLESS_USERS offlinePlatform initial (Message (Binary helloUdp))))
         (Message (Binary udpDatagram))
       = ([], snd (dispatch VLESS_USERS offlinePlatform initial (Message (Binary helloUdp))))"
  by code_simp

text \<open>
  C5, amended. In UDP mode (command 2, a configured user, an accepted address type,
  sends that return) the first message is answered with the success response and the
  text \<^verbatim>\<open>UDP to host:port received (simulated)\<close>, both on the client socket, and no
  message listener is registered: every later message, whatever it holds, has no
  effect. Nothing is parsed as datagrams, and nothing is sent to the destination.
\<close>

theorem C5_udp:
  assumes "findUser users (uuidOf buffer) = Some u"
    and "parseAddress buffer = Some (address, n)"
    and "at buffer 17 = Some 2"
    and "send_ok plat [0, 0]"
    and "send_ok plat (udpResponse address (portOf buffer))"
  shows "run users plat initial (Message (Binary buffer) # map Message ms)
         = ([connectionLine (uuidOf buffer) address (portOf buffer) True, Send [0, 0],
             Send (udpResponse address (portOf buffer))],
            initial\<lparr>userId := Some (uuidOf buffer), targetHost := Some address,
                    targetPort := Some (portOf buffer), isUDP := True,
                    listener := NoHandler\<rparr>)"
proof -
  let ?s = "initial\<lparr>userId := Some (uuidOf buffer), targetHost := Some address,
                    targetPort := Some (portOf buffer), isUDP := True,
                    listener := NoHandler\<rparr>"
  have "firstMessageHandler users plat (initial\<lparr>listener := NoHandler\<rparr>) (Binary buffer)
         = ([connectionLine (uuidOf buffer) address (portOf buffer) True, Send [0, 0],
             Send (udpResponse address (portOf buffer))], ?s)"
    using fmh_udp [OF assms(1,2,4,3,5), of "initial\<lparr>listener := NoHandler\<rparr>"]
    by (simp add: initial_def)
  then have d: "dispatch users plat initial (Message (Binary buffer))
         = ([connectionLine (uuidOf buffer) address (portOf buffer) True, Send [0, 0],
             Send (udpResponse address (portOf buffer))], ?s)"
    unfolding dispatch_initial .
  have "listener ?s = NoHandler"
    by simp
  from run_no_handler [OF this, of users plat ms] d show ?thesis
    by simp
qed

theorem C5_udp_witness:
  "findUser VLESS_USERS (uuidOf helloUdp) = Some (hd VLESS_USERS)
   \<and> parseAddress helloUdp = Some (js ''8.8.8.8'', Some 4)
   \<and> at helloUdp 17 = Some 2
   \<and> send_ok offlinePlatform [0, 0]
   \<and> send_ok offlinePlatform (udpResponse (js ''8.8.8.8'') (portOf helloUdp))
   \<and> fst (run VLESS_USERS offlinePlatform initial
             (Message (Binary helloUdp) # map Message [Binary udpDatagram, Binary udpDatagram]))
       = [connectionLine (uuidOf helloUdp) (js ''8.8.8.8'') (portOf helloUdp) True, Send [0, 0],
          Send (udpResponse (js ''8.8.8.8'') (portOf helloUdp))]"
proof -
  have u: "findUser VLESS_USERS (uuidOf helloUdp) = Some (hd VLESS_USERS)"
    unfolding helloUdp_def by (rule findUser_user1)
  have p: "parseAddress helloUdp = Some (js ''8.8.8.8'', Some 4)"
    by (simp add: parseAddress_def helloUdp_def user1_def at_def showByte_def
          decimal.simps js_def)
  have c: "at helloUdp 17 = Some 2"
    by (simp add: helloUdp_def user1_def at_def)
  have o: "send_ok offlinePlatform [0, 0]"
    "send_ok offlinePlatform (udpResponse (js ''8.8.8.8'') (portOf helloUdp))"
    by (simp_all add: offlinePlatform_def)
  from C5_udp [OF u p c o, of "[Binary udpDatagram, Binary udpDatagram]"] u p c o
  show ?thesis by simp
qed

subsection \<open>Bytes after the address field\<close>

lemma at_take: "i < k \<Longrightarrow> at (take k xs) i = at xs i"
  by (simp add: at_def)

lemma at_take_eq:
  assumes "take k xs' = take k xs" "i < k"
  shows "at xs' i = at xs i"
  using at_take [OF assms(2), of xs'] at_take [OF assms(2), of xs] assms(1) by simp

lemma slice_take: "e \<le> k \<Longrightarrow> slice (take k xs) b e = slice xs b e"
  by (cases "b \<le> e") (simp_all add: slice_def take_drop min_def)

lemma slice_take_eq:
  assumes "take k xs' = take k xs" "e \<le> k"
  shows "slice xs' b e = slice xs b e"
  using slice_take [OF assms(2), of xs' b] slice_take [OF assms(2), of xs b] assms(1) by simp

lemma parseAddress_length:
  assumes "parseAddress buffer = Some (address, Some n)"
  shows "(at buffer 20 = Some 1 \<and> n = 4)
         \<or> (at buffer 20 = Some 2 \<and> (\<exists>l. at buffer 21 = Some l \<and> n = 1 + unat l))
         \<or> (at buffer 20 = Some 3 \<and> n = 16)"
  using assms by (auto simp: parseAddress_def Let_def split: if_splits)

lemma parseAddress_take_eq:
  assumes "parseAddress buffer = Some (address, Some n)"
    and "take (21 + n) buffer' = take (21 + n) buffer"
  shows "parseAddress buffer' = parseAddress buffer"
proof -
  note a = at_take_eq [OF assms(2)]
  note s = slice_take_eq [OF assms(2)]
  from parseAddress_length [OF assms(1)] show ?thesis
  proof (elim disjE conjE exE)
    assume t: "at buffer 20 = Some 1" and n: "n = 4"
    have "at buffer' 20 = at buffer 20" "at buffer' 21 = at buffer 21"
      "at buffer' 22 = at buffer 22" "at buffer' 23 = at buffer 23" "at buffer' 24 = at buffer 24"
      using n by (simp_all add: a)
    then show ?thesis
      by (simp add: parseAddress_def t)
  next
    fix l
    assume t: "at buffer 20 = Some 2" and l: "at buffer 21 = Some l" and n: "n = 1 + unat l"
    have "at buffer' 20 = at buffer 20" "at buffer' 21 = at buffer 21"
      "slice buffer' 22 (22 + unat l) = slice buffer 22 (22 + unat l)"
      using n by (simp_all add: a s)
    then show ?thesis
      by (simp add: parseAddress_def t l)
  next
    assume t: "at buffer 20 = Some 3" and n: "n = 16"
    have "at buffer' 20 = at buffer 20" "slice buffer' 21 37 = slice buffer 21 37"
      using n by (simp_all add: a s)
    then show ?thesis
      by (simp add: parseAddress_def t)
  qed
qed

lemma firstMessageTry_take_eq:
  assumes "parseAddress buffer = Some (address, Some n)"
    and "take (21 + n) buffer' = take (21 + n) buffer"
  shows "firstMessageTry users plat s (Binary buffer')
         = firstMessageTry users plat s (Binary buffer)"
proof -
  have "uuidOf buffer' = uuidOf buffer"
    using slice_take_eq [OF assms(2), of 16 0] by (simp add: uuidOf_def)
  moreover have "at buffer' 17 = at buffer 17" "portOf buffer' = portOf buffer"
    using at_take_eq [OF assms(2)] by (simp_all add: portOf_def)
  moreover note parseAddress_take_eq [OF assms]
  ultimately show ?thesis
    by (simp add: firstMessageTry_def Let_def cong: option.case_cong if_cong)
qed

text \<open>
  C3, the claim as stated fails. An HTTP request that trails the header of the
  configured user's first message for 1.2.3.4:80 is dropped: the first message has the
  very effects it has without it, the log line and the success response, and no request
  is fetched.
\<close>

theorem C3_payload_counterexample:
  "parseAddress (helloHttp @ getRequest) = Some (js ''1.2.3.4'', Some 4)
   \<and> drop (21 + 4) (helloHttp @ getRequest) = getRequest
   \<and> dispatch VLESS_USERS cannedPlatform initial (Message (Binary (helloHttp @ getRequest)))
       = dispatch VLESS_USERS cannedPlatform initial (Message (Binary helloHttp))
   \<and> fst (dispatch VLESS_USERS cannedPlatform initial (Message (Binary (helloHttp @ getRequest))))
       = [ConsoleLog (js ''VLESS Connection: 62a9adef-40b2-477a-861f-ce1e8604bc34 -> 1.2.3.4:80 TCP''),
          Send [0, 0]]"
  by code_simp

text \<open>
  C3, amended. The first-message handler reads the header only: when the address field
  is complete, with \<^verbatim>\<open>addressLength\<close> bytes after the type byte at offset 20, what the
  handler does is fixed by the first 21 + \<^verbatim>\<open>addressLength\<close> bytes. The bytes at and after
  the offset that follows the address field change neither its effects nor the state it
  leaves, and it fetches nothing: the relay of \<^verbatim>\<open>proxyTCP\<close> starts with the next message.
\<close>

theorem C3_payload:
  assumes "parseAddress buffer = Some (address, Some n)"
    and "take (21 + n) buffer' = take (21 + n) buffer"
  shows "dispatch users plat initial (Message (Binary buffer'))
           = dispatch users plat initial (Message (Binary buffer))
         \<and> (\<forall>e\<in>set (fst (dispatch users plat initial (Message (Binary buffer')))).
               \<not> isFetch e)"
  using firstMessageTry_take_eq [OF assms, of users plat "initial\<lparr>listener := NoHandler\<rparr>"]
    fmh_response [of users plat "initial\<lparr>listener := NoHandler\<rparr>" "Binary buffer'"]
  unfolding dispatch_initial by (simp add: firstMessageHandler_def)

theorem C3_payload_witness:
  "parseAddress helloTcp = Some (js ''1.2.3.4'', Some 4)
   \<and> take (21 + 4) (helloTcp @ rawBytes) = take (21 + 4) helloTcp
   \<and> drop (21 + 4) (helloTcp @ rawBytes) = rawBytes
   \<and> dispatch VLESS_USERS offlinePlatform initial (Message (Binary (helloTcp @ rawBytes)))
       = dispatch VLESS_USERS offlinePlatform initial (Message (Binary helloTcp))
   \<and> list_all (\<lambda>e. \<not> isFetch e)
        (fst (dispatch VLESS_USERS offlinePlatform initial (Message (Binary (helloTcp @ rawBytes)))))"
proof -
  have p: "parseAddress helloTcp = Some (js ''1.2.3.4'', Some 4)"
    by (simp add: parseAddress_def helloTcp_def user1_def at_def showByte_def
          decimal.simps js_def)
  have t: "take (21 + 4) (helloTcp @ rawBytes) = take (21 + 4) helloTcp"
    "drop (21 + 4) (helloTcp @ rawBytes) = rawBytes"
    by (simp_all add: helloTcp_def user1_def)
  from C3_payload [OF p t(1), of VLESS_USERS offlinePlatform] p t
  show ?thesis by (simp add: list_all_iff)
qed

subsection \<open>The relay of \<^verbatim>\<open>proxyTCP\<close>\<close>

lemma mh_fetches:
  "\<forall>e\<in>set (fst (messageHandler plat host port (Binary bytes))).
     isFetch e \<longrightarrow> e = Fetch (httpRequest host port (TextDecoder_decode bytes))"
  by (auto simp: messageHandler_def fetchBlock_def Let_def split: option.splits if_splits)

lemma dispatch_helloTcp:
  assumes "send_ok plat [0, 0]"
  shows "dispatch VLESS_USERS plat initial (Message (Binary helloTcp))
     = ([ConsoleLog (js ''VLESS Connection: 62a9adef-40b2-477a-861f-ce1e8604bc34 -> 1.2.3.4:8080 TCP''),
         Send [0, 0]],
        initial\<lparr>userId := Some (js ''62a9adef-40b2-477a-861f-ce1e8604bc34''),
                targetHost := Some (js ''1.2.3.4''), targetPort := Some 8080,
                listener := MessageHandler (js ''1.2.3.4'') 8080\<rparr>)"
proof -
  have u: "findUser VLESS_USERS (uuidOf helloTcp) = Some (hd VLESS_USERS)"
    "uuidOf helloTcp = js ''62a9adef-40b2-477a-861f-ce1e8604bc34''"
    unfolding helloTcp_def by (rule findUser_user1 uuidOf_user1)+
  have p: "parseAddress helloTcp = Some (js ''1.2.3.4'', Some 4)"
    by (simp add: parseAddress_def helloTcp_def user1_def at_def showByte_def
          decimal.simps js_def)
  have q: "portOf helloTcp = 8080"
    by (simp add: portOf_def helloTcp_def user1_def at_def toInt_def)
  have c: "at helloTcp 17 \<noteq> Some 2"
    by (simp add: helloTcp_def user1_def at_def)
  have "connectionLine (js ''62a9adef-40b2-477a-861f-ce1e8604bc34'') (js ''1.2.3.4'') 8080 False
        = ConsoleLog (js ''VLESS Connection: 62a9adef-40b2-477a-861f-ce1e8604bc34 -> 1.2.3.4:8080 TCP'')"
    by (simp add: connectionLine_def decimal.simps js_def)
  with fmh_tcp [OF u(1) p assms c, of "initial\<lparr>listener := NoHandler\<rparr>"]
  have "firstMessageHandler VLESS_USERS plat (initial\<lparr>listener := NoHandler\<rparr>) (Binary helloTcp)
     = ([ConsoleLog (js ''VLESS Connection: 62a9adef-40b2-477a-861f-ce1e8604bc34 -> 1.2.3.4:8080 TCP''),
         Send [0, 0]],
        initial\<lparr>userId := Some (js ''62a9adef-40b2-477a-861f-ce1e8604bc34''),
                targetHost := Some (js ''1.2.3.4''), targetPort := Some 8080,
                listener := MessageHandler (js ''1.2.3.4'') 8080\<rparr>)"
    by (simp add: u(2) q initial_def)
  then show ?thesis
    unfolding dispatch_initial .
qed

lemma not_http_8080:
  "\<not> (looksHttp (js ''1.2.3.4'') 8080 \<and> isHttpText (TextDecoder_decode rawBytes))"
  by code_simp

text \<open>
  C2, the claim as stated fails. In the relay for 1.2.3.4:8080 three bytes from the
  client are sent back to the client, and nothing goes out; in the relay for 1.2.3.4:80
  a \<^verbatim>\<open>POST\<close> request from the client is parsed, fetched as a request of its own, and
  the client is sent the body of the answer.
\<close>

theorem C2_relay_counterexample:
  "fst (run VLESS_USERS cannedPlatform initial [Message (Binary helloTcp), Message (Binary rawBytes)])
     = [ConsoleLog (js ''VLESS Connection: 62a9adef-40b2-477a-861f-ce1e8604bc34 -> 1.2.3.4:8080 TCP''),
        Send [0, 0], Send rawBytes]
   \<and> fst (run VLESS_USERS cannedPlatform initial
            [Message (Binary helloHttp), Message (Binary postRequest)])
     = [ConsoleLog (js ''VLESS Connection: 62a9adef-40b2-477a-861f-ce1e8604bc34 -> 1.2.3.4:80 TCP''),
        Send [0, 0],
        Fetch \<lparr>req_url = js ''http://1.2.3.4:80'', req_method = js ''POST'',
               req_headers = [(js ''Host'', js ''example.com'')],
               req_body = Some (js ''hello'')\<rparr>,
        Send [79, 75]]"
proof
  have o: "send_ok cannedPlatform [0, 0]" "send_ok cannedPlatform rawBytes"
    by (simp_all add: cannedPlatform_def)
  let ?s = "initial\<lparr>userId := Some (js ''62a9adef-40b2-477a-861f-ce1e8604bc34''),
                targetHost := Some (js ''1.2.3.4''), targetPort := Some 8080,
                listener := MessageHandler (js ''1.2.3.4'') 8080\<rparr>"
  have "chanOpen ?s" "listener ?s = MessageHandler (js ''1.2.3.4'') 8080"
    by (simp_all add: initial_def)
  from dispatch_relay [OF this, of VLESS_USERS cannedPlatform "Binary rawBytes"]
    mh_echo [OF not_http_8080, of cannedPlatform] o(2)
  have "dispatch VLESS_USERS cannedPlatform ?s (Message (Binary rawBytes)) = ([Send rawBytes], ?s)"
    by simp
  with dispatch_helloTcp [OF o(1)]
  show "fst (run VLESS_USERS cannedPlatform initial
               [Message (Binary helloTcp), Message (Binary rawBytes)])
     = [ConsoleLog (js ''VLESS Connection: 62a9adef-40b2-477a-861f-ce1e8604bc34 -> 1.2.3.4:8080 TCP''),
        Send [0, 0], Send rawBytes]"
    by simp
next
  show "fst (run VLESS_USERS cannedPlatform initial
            [Message (Binary helloHttp), Message (Binary postRequest)])
     = [ConsoleLog (js ''VLESS Connection: 62a9adef-40b2-477a-861f-ce1e8604bc34 -> 1.2.3.4:80 TCP''),
        Send [0, 0],
        Fetch \<lparr>req_url = js ''http://1.2.3.4:80'', req_method = js ''POST'',
               req_headers = [(js ''Host'', js ''example.com'')],
               req_body = Some (js ''hello'')\<rparr>,
        Send [79, 75]]"
    by code_simp
qed

text \<open>
  C2, amended. While the relay handler of \<^verbatim>\<open>proxyTCP(websocket, host, port)\<close> is
  registered, a message from the client is handled by its content, and nothing is ever
  forwarded as bytes to the destination. A text message has no effect. A binary message
  is sent back unchanged to the client when the port is neither 80 nor 443 and the host
  holds none of \<^verbatim>\<open>.com\<close>, \<^verbatim>\<open>.org\<close>, \<^verbatim>\<open>.net\<close>, or when its decoded text starts with none
  of \<^verbatim>\<open>GET \<close>, \<^verbatim>\<open>POST \<close>, \<^verbatim>\<open>CONNECT \<close>. Otherwise \<^verbatim>\<open>fetch\<close> is called with the HTTP
  request parsed from a \<^verbatim>\<open>GET\<close> or \<^verbatim>\<open>POST\<close> text, and when the call answers, the body
  of the answer is sent to the client; a \<^verbatim>\<open>CONNECT\<close> is answered with a fixed text and
  the socket is closed with code 1000. The only request a message can cause is that
  parsed one.
\<close>

theorem C2_relay:
  assumes "chanOpen s" and "listener s = MessageHandler host port"
  shows "dispatch users plat s (Message (Text t)) = ([], s)
   \<and> (\<not> (looksHttp host port \<and> isHttpText (TextDecoder_decode bytes)) \<and> send_ok plat bytes \<longrightarrow>
        dispatch users plat s (Message (Binary bytes)) = ([Send bytes], s))
   \<and> (looksHttp host port
        \<and> (startsWith (TextDecoder_decode bytes) (js ''GET '')
             \<or> startsWith (TextDecoder_decode bytes) (js ''POST ''))
        \<and> fetchCall plat (httpRequest host port (TextDecoder_decode bytes)) = Some responseBody
        \<and> send_ok plat responseBody \<longrightarrow>
        dispatch users plat s (Message (Binary bytes))
          = ([Fetch (httpRequest host port (TextDecoder_decode bytes)), Send responseBody], s))
   \<and> (looksHttp host port \<and> startsWith (TextDecoder_decode bytes) (js ''CONNECT '')
        \<and> send_ok plat connectionEstablished \<longrightarrow>
        dispatch users plat s (Message (Binary bytes))
          = ([Send connectionEstablished, Close 1000 (js ''CONNECT not fully supported'')],
             s\<lparr>chanOpen := False\<rparr>))
   \<and> (\<forall>e\<in>set (fst (dispatch users plat s (Message (Binary bytes)))).
         isFetch e \<longrightarrow> e = Fetch (httpRequest host port (TextDecoder_decode bytes)))"
proof (intro conjI impI)
  note d = dispatch_relay [OF assms, of users plat]
  show "dispatch users plat s (Message (Text t)) = ([], s)"
    by (simp add: d mh_text)
  show "dispatch users plat s (Message (Binary bytes)) = ([Send bytes], s)"
    if "\<not> (looksHttp host port \<and> isHttpText (TextDecoder_decode bytes)) \<and> send_ok plat bytes"
    using that mh_echo [of host port bytes plat] by (simp add: d)
  show "dispatch users plat s (Message (Binary bytes))
          = ([Fetch (httpRequest host port (TextDecoder_decode bytes)), Send responseBody], s)"
    if "looksHttp host port
        \<and> (startsWith (TextDecoder_decode bytes) (js ''GET '')
             \<or> startsWith (TextDecoder_decode bytes) (js ''POST ''))
        \<and> fetchCall plat (httpRequest host port (TextDecoder_decode bytes)) = Some responseBody
        \<and> send_ok plat responseBody"
    using that mh_fetch [of host port bytes plat] by (simp add: d)
  show "dispatch users plat s (Message (Binary bytes))
          = ([Send connectionEstablished, Close 1000 (js ''CONNECT not fully supported'')],
             s\<lparr>chanOpen := False\<rparr>)"
    if "looksHttp host port \<and> startsWith (TextDecoder_decode bytes) (js ''CONNECT '')
        \<and> send_ok plat connectionEstablished"
    using that mh_connect [of host port bytes plat] by (simp add: d)
  show "\<forall>e\<in>set (fst (dispatch users plat s (Message (Binary bytes)))).
         isFetch e \<longrightarrow> e = Fetch (httpRequest host port (TextDecoder_decode bytes))"
    using mh_fetches [of plat host port bytes] by (simp add: d)
qed

lemma relay_state_http:
  "chanOpen (snd (dispatch VLESS_USERS cannedPlatform initial (Message (Binary helloHttp))))
   \<and> listener (snd (dispatch VLESS_USERS cannedPlatform initial (Message (Binary helloHttp))))
       = MessageHandler (js ''1.2.3.4'') 80"
  by code_simp

lemma post_is_http:
  "looksHttp (js ''1.2.3.4'') 80 \<and> startsWith (TextDecoder_decode postRequest) (js ''POST '')"
  by code_simp

lemma post_request:
  "httpRequest (js ''1.2.3.4'') 80 (TextDecoder_decode postRequest)
     = \<lparr>req_url = js ''http://1.2.3.4:80'', req_method = js ''POST'',
        req_headers = [(js ''Host'', js ''example.com'')], req_body = Some (js ''hello'')\<rparr>"
  by code_simp

lemma post_answered:
  "fetchCall cannedPlatform
     \<lparr>req_url = js ''http://1.2.3.4:80'', req_method = js ''POST'',
      req_headers = [(js ''Host'', js ''example.com'')], req_body = Some (js ''hello'')\<rparr>
     = Some [79, 75]"
  by code_simp

theorem C2_relay_witness:
  "chanOpen (snd (dispatch VLESS_USERS cannedPlatform initial (Message (Binary helloTcp))))
   \<and> listener (snd (dispatch VLESS_USERS cannedPlatform initial (Message (Binary helloTcp))))
       = MessageHandler (js ''1.2.3.4'') 8080
   \<and> \<not> (looksHttp (js ''1.2.3.4'') 8080 \<and> isHttpText (TextDecoder_decode rawBytes))
   \<and> send_ok cannedPlatform rawBytes
   \<and> fst (dispatch VLESS_USERS cannedPlatform
            (snd (dispatch VLESS_USERS cannedPlatform initial (Message (Binary helloTcp))))
            (Message (Binary rawBytes)))
       = [Send rawBytes]
   \<and> chanOpen (snd (dispatch VLESS_USERS cannedPlatform initial (Message (Binary helloHttp))))
   \<and> listener (snd (dispatch VLESS_USERS cannedPlatform initial (Message (Binary helloHttp))))
       = MessageHandler (js ''1.2.3.4'') 80
   \<and> looksHttp (js ''1.2.3.4'') 80
   \<and> startsWith (TextDecoder_decode postRequest) (js ''POST '')
   \<and> fetchCall cannedPlatform (httpRequest (js ''1.2.3.4'') 80 (TextDecoder_decode postRequest))
       = Some [79, 75]
   \<and> send_ok cannedPlatform [79, 75]
   \<and> fst (dispatch VLESS_USERS cannedPlatform
            (snd (dispatch VLESS_USERS cannedPlatform initial (Message (Binary helloHttp))))
            (Message (Binary postRequest)))
       = [Fetch \<lparr>req_url = js ''http://1.2.3.4:80'', req_method = js ''POST'',
                 req_headers = [(js ''Host'', js ''example.com'')],
                 req_body = Some (js ''hello'')\<rparr>,
          Send [79, 75]]"
proof -
  let ?s = "snd (dispatch VLESS_USERS cannedPlatform initial (Message (Binary helloTcp)))"
  let ?h = "snd (dispatch VLESS_USERS cannedPlatform initial (Message (Binary helloHttp)))"
  have o: "send_ok cannedPlatform rawBytes" "send_ok cannedPlatform [0, 0]"
    "send_ok cannedPlatform [79, 75]"
    by (simp_all add: cannedPlatform_def)
  have c: "chanOpen ?s" and l: "listener ?s = MessageHandler (js ''1.2.3.4'') 8080"
    unfolding dispatch_helloTcp [OF o(2)] by (simp_all add: initial_def)
  note h = not_http_8080
  from C2_relay [OF c l, of VLESS_USERS cannedPlatform "[]" rawBytes] h o(1)
  have "dispatch VLESS_USERS cannedPlatform ?s (Message (Binary rawBytes)) = ([Send rawBytes], ?s)"
    by blast
  then have 1: "fst (dispatch VLESS_USERS cannedPlatform ?s (Message (Binary rawBytes)))
                = [Send rawBytes]"
    by simp
  have c': "chanOpen ?h" and l': "listener ?h = MessageHandler (js ''1.2.3.4'') 80"
    using relay_state_http by blast+
  have f: "fetchCall cannedPlatform (httpRequest (js ''1.2.3.4'') 80 (TextDecoder_decode postRequest))
       = Some [79, 75]"
    unfolding post_request by (rule post_answered)
  from C2_relay [OF c' l', of VLESS_USERS cannedPlatform "[]" postRequest "[79, 75]"]
    post_is_http f o(3)
  have "dispatch VLESS_USERS cannedPlatform ?h (Message (Binary postRequest))
        = ([Fetch (httpRequest (js ''1.2.3.4'') 80 (TextDecoder_decode postRequest)),
            Send [79, 75]], ?h)"
    by blast
  then have 2: "fst (dispatch VLESS_USERS cannedPlatform ?h (Message (Binary postRequest)))
       = [Fetch \<lparr>req_url = js ''http://1.2.3.4:80'', req_method = js ''POST'',
                 req_headers = [(js ''Host'', js ''example.com'')],
                 req_body = Some (js ''hello'')\<rparr>,
          Send [79, 75]]"
    unfolding post_request by simp
  from c l h o(1,3) 1 c' l' post_is_http f 2 show ?thesis
    by blast
qed

subsection \<open>The text of an IPv6 address\<close>

text \<open>
  C7. The address of type 3 is printed byte by byte, not in groups of sixteen bits:
  sixteen bytes 255 give sixteen groups \<^verbatim>\<open>ff\<close>, where the canonical text has eight groups
  \<^verbatim>\<open>ffff\<close>; the address 2001:db8::1 is printed as \<^verbatim>\<open>20:1:d:b8::1\<close>. Only the zero address
  comes out canonical.
\<close>

theorem C7_ipv6_text:
  "parseAddress helloIPv6 = Some (js ''ff:ff:ff:ff:ff:ff:ff:ff:ff:ff:ff:ff:ff:ff:ff:ff'', Some 16)
   \<and> ipv6Text [0x20, 0x01, 0x0d, 0xb8, 0, 0, 0, 0, 0, 0, 0, 0, 0, 0, 0, 1] = js ''20:1:d:b8::1''
   \<and> ipv6Text (replicate 16 0) = js ''::''"
  by code_simp

end
